theory Spec2Isabelle
  imports Complex_Main "HOL-Library.Sublist"
begin

section \<open>The tkinter-to-Kivy shim: a shallow embedding of \<^verbatim>\<open>tkintertokivy.py\<close>\<close>

text \<open>
  The theory embeds the parts of \<^verbatim>\<open>src/tkintertokivy.py\<close> that the numbered properties
  below are about. Conventions of the embedding:
  \<^item> a Python \<^verbatim>\<open>str\<close> is a \<open>string\<close>, one \<open>char\<close> per code point (code points below 256);
  \<^item> a Python object of an unknown class is \<open>PyObj n\<close>, \<open>n\<close> its identity;
  \<^item> an instance attribute that may be absent (\<^verbatim>\<open>hasattr\<close>, \<^verbatim>\<open>getattr\<close> with a default) is an
    \<open>option\<close> field, \<open>None\<close> when the attribute was never assigned;
  \<^item> an exception that leaves a function is the \<open>Inl\<close> of a sum; where the function has
    changed the state before the exception, the result is the exception, as an \<open>option\<close>,
    together with the state left behind;
  \<^item> a call that may not come back (a loop over a list that grows, a callback) has an
    \<open>option\<close> result, \<open>None\<close> when it does not return;
  \<^item> \<^verbatim>\<open>print\<close> writes to a console that takes every text, and changes no object: the
    console is left out. What is kept of a \<^verbatim>\<open>print\<close> is the formatting of its argument where
    that can raise.
\<close>

subsection \<open>Python values\<close>

datatype pyfloat = Finite rat | PosInf | NegInf | NaN

datatype pyval =
    PyNone
  | PyBool bool
  | PyInt int
  | PyFloat pyfloat
  | PyStr string
  | PyObj nat

text \<open>
  Exception classes that occur below. \<^verbatim>\<open>SystemExit\<close> and \<^verbatim>\<open>KeyboardInterrupt\<close> derive from
  \<^verbatim>\<open>BaseException\<close> only; the others derive from \<^verbatim>\<open>Exception\<close>, so an \<^verbatim>\<open>except Exception\<close>
  clause catches them. An exception of a subclass of \<^verbatim>\<open>ValueError\<close>, \<^verbatim>\<open>TypeError\<close> or
  \<^verbatim>\<open>OverflowError\<close> is given by that class, since an \<^verbatim>\<open>except\<close> clause treats it alike;
  \<open>OtherException name\<close> is any other class derived from \<^verbatim>\<open>Exception\<close>.
\<close>

datatype py_exc =
    ValueError
  | TypeError
  | OverflowError
  | OtherException string
  | SystemExit
  | KeyboardInterrupt

definition is_Exception :: "py_exc \<Rightarrow> bool" where
  "is_Exception e = (e \<noteq> SystemExit \<and> e \<noteq> KeyboardInterrupt)"

subsection \<open>\<^verbatim>\<open>FakeTk\<close>: the window state (lines 187--200 and 387--404)\<close>

text \<open>
  \<^verbatim>\<open>withdraw\<close>, \<^verbatim>\<open>deiconify\<close> and \<^verbatim>\<open>iconify\<close> assign the attributes \<^verbatim>\<open>_withdrawn\<close> and
  \<^verbatim>\<open>_iconified\<close>; \<^verbatim>\<open>__init__\<close> assigns neither, and \<^verbatim>\<open>wm_state\<close> reads them with
  \<^verbatim>\<open>getattr(self, ..., False)\<close>.
\<close>

record tk_window =
  withdrawn_attr :: "bool option"
  iconified_attr :: "bool option"

definition FakeTk_init :: tk_window where
  "FakeTk_init = \<lparr>withdrawn_attr = None, iconified_attr = None\<rparr>"

definition getattr_default :: "'a option \<Rightarrow> 'a \<Rightarrow> 'a" where
  "getattr_default a d = (case a of None \<Rightarrow> d | Some v \<Rightarrow> v)"

definition withdraw :: "tk_window \<Rightarrow> tk_window" where
  "withdraw w = w\<lparr>withdrawn_attr := Some True\<rparr>"

definition deiconify :: "tk_window \<Rightarrow> tk_window" where
  "deiconify w = w\<lparr>withdrawn_attr := Some False\<rparr>"

definition iconify :: "tk_window \<Rightarrow> tk_window" where
  "iconify w = w\<lparr>iconified_attr := Some True\<rparr>"

text \<open>\<^verbatim>\<open>wm_state(state=None)\<close> returns a value and the window it leaves behind.\<close>

definition wm_state :: "pyval \<Rightarrow> tk_window \<Rightarrow> pyval \<times> tk_window" where
  "wm_state state w =
     (if state = PyNone then
        (if getattr_default (withdrawn_attr w) False then (PyStr ''withdrawn'', w)
         else if getattr_default (iconified_attr w) False then (PyStr ''iconic'', w)
         else (PyStr ''normal'', w))
      else
        (state,
         if state = PyStr ''withdrawn'' then withdraw w
         else if state = PyStr ''iconic'' then iconify w
         else if state = PyStr ''normal'' then deiconify w
         else w))"

datatype tk_op = Withdraw | Deiconify | Iconify | WmState pyval

fun tk_step :: "tk_window \<Rightarrow> tk_op \<Rightarrow> tk_window" where
  "tk_step w Withdraw = withdraw w"
| "tk_step w Deiconify = deiconify w"
| "tk_step w Iconify = iconify w"
| "tk_step w (WmState s) = snd (wm_state s w)"

definition tk_run :: "tk_op list \<Rightarrow> tk_window" where
  "tk_run ops = foldl tk_step FakeTk_init ops"

text \<open>Setting a state and reading it back: the value of the second, argument-free call.\<close>

definition wm_state_set_then_get :: "string \<Rightarrow> tk_window \<Rightarrow> pyval \<times> pyval" where
  "wm_state_set_then_get s w =
     (let (r1, w1) = wm_state (PyStr s) w; (r2, w2) = wm_state PyNone w1 in (r1, r2))"

subsection \<open>\<^verbatim>\<open>FakeTk.after\<close> and \<^verbatim>\<open>after_cancel\<close>: the job map (lines 406--440)\<close>

text \<open>
  \<^verbatim>\<open>after\<close> starts a daemon thread that sleeps and then calls \<^verbatim>\<open>func(*args)\<close>, and records the
  thread under \<^verbatim>\<open>f"after_job_{randint(1000, 9999)}"\<close> in \<^verbatim>\<open>self._after_jobs\<close>. The sequential part
  is modelled: the random number is an argument, a thread is its number in the list of
  started threads with its delay and function, and \<^verbatim>\<open>_after_jobs\<close> is absent (\<open>None\<close>) until the
  first call. What the threads do, and when, is not part of the model.
\<close>

fun digits10 :: "nat \<Rightarrow> string" where
  "digits10 n = (if n < 10 then [char_of (48 + n)] else digits10 (n div 10) @ [char_of (48 + n mod 10)])"

declare digits10.simps [simp del]

record 'f after_state =
  after_jobs :: "(string \<rightharpoonup> nat) option"
  started_threads :: "(nat \<times> int \<times> 'f) list"

definition FakeTk_after :: "nat \<Rightarrow> int \<Rightarrow> 'f \<Rightarrow> 'f after_state \<Rightarrow> string \<times> 'f after_state" where
  "FakeTk_after randint delay func st =
     (let thread = length (started_threads st);
          st1 = st\<lparr>started_threads := started_threads st @ [(thread, delay, func)]\<rparr>;
          job_id = ''after_job_'' @ digits10 randint;
          jobs = (case after_jobs st1 of None \<Rightarrow> Map.empty | Some m \<Rightarrow> m)
      in (job_id, st1\<lparr>after_jobs := Some (jobs(job_id \<mapsto> thread))\<rparr>))"

definition FakeTk_after_cancel :: "string \<Rightarrow> 'f after_state \<Rightarrow> 'f after_state" where
  "FakeTk_after_cancel job_id st =
     (case after_jobs st of
        None \<Rightarrow> st
      | Some m \<Rightarrow> if m job_id \<noteq> None then st\<lparr>after_jobs := Some (m(job_id := None))\<rparr> else st)"

subsection \<open>\<^verbatim>\<open>FakeStringVar\<close> (lines 2463--2503)\<close>

text \<open>
  A trace callback is a value of type \<open>'c\<close>. Calling it is the parameter
  \<open>call :: 'c \<Rightarrow> 'v \<times> 'w \<Rightarrow> (call_outcome \<times> 'v \<times> 'w) option\<close>: the callback works on the
  variable \<open>'v\<close> it is registered on and on the rest of the program's state \<open>'w\<close>, and may
  change both (it may call \<^verbatim>\<open>set\<close> or \<^verbatim>\<open>trace\<close> of the variable); it returns, raises, or does
  not come back. \<open>Raises e\<close> is an exception \<open>e\<close> whose message can be formatted;
  \<open>RaisesUnprintable e\<close> is an exception derived from \<^verbatim>\<open>Exception\<close> whose \<^verbatim>\<open>__str__\<close> raises \<open>e\<close>.
  Python's \<^verbatim>\<open>str\<close> is the parameter \<open>str\<close>: it returns a string or raises, and changes no
  state.
\<close>

datatype call_outcome = Returns | Raises py_exc | RaisesUnprintable py_exc

text \<open>\<open>sv_callbacks\<close> is the list object that \<^verbatim>\<open>__init__\<close> creates; \<^verbatim>\<open>trace\<close> appends to it in
  place.\<close>

record 'c stringvar =
  sv_value :: string
  sv_callbacks :: "'c list"


definition FakeStringVar_get :: "'c stringvar \<Rightarrow> string" where
  "FakeStringVar_get sv = sv_value sv"

text \<open>
  The loop
  \<^verbatim>\<open>for callback in self._callbacks: try: callback() except Exception as e: print(f"... {e}")\<close>
  of the three variable classes. The \<^verbatim>\<open>for\<close> statement reads the list by index at every
  step: a callback appended while the loop runs is called too, and the loop need not end.
  An exception that does not derive from \<^verbatim>\<open>Exception\<close> leaves the loop and the method, and so
  does an exception raised while the message is formatted. The result is the exception
  that left the loop, if any, the variable and the program state after the loop, and the
  callbacks invoked, in order.
\<close>

partial_function (option) run_callbacks ::
  "('c \<Rightarrow> 'v \<times> 'w \<Rightarrow> (call_outcome \<times> 'v \<times> 'w) option) \<Rightarrow> ('v \<Rightarrow> 'c list) \<Rightarrow> nat \<Rightarrow> 'v \<Rightarrow> 'w
     \<Rightarrow> 'c list \<Rightarrow> (py_exc option \<times> 'v \<times> 'w \<times> 'c list) option" where
  "run_callbacks call callbacks i var w invoked =
     (if i < length (callbacks var) then
        (case call (callbacks var ! i) (var, w) of
           None \<Rightarrow> None
         | Some (outcome, var', w') \<Rightarrow>
             (case outcome of
                Returns \<Rightarrow>
                  run_callbacks call callbacks (Suc i) var' w' (invoked @ [callbacks var ! i])
              | Raises e \<Rightarrow>
                  if is_Exception e
                  then run_callbacks call callbacks (Suc i) var' w' (invoked @ [callbacks var ! i])
                  else Some (Some e, var', w', invoked @ [callbacks var ! i])
              | RaisesUnprintable e \<Rightarrow>
                  Some (Some e, var', w', invoked @ [callbacks var ! i])))
      else Some (None, var, w, invoked))"

declare run_callbacks.simps [code]

text \<open>\<^verbatim>\<open>set\<close>: the closing \<^verbatim>\<open>print\<close> formats a \<^verbatim>\<open>str\<close>, which does not raise.\<close>

definition FakeStringVar_set ::
  "('c \<Rightarrow> 'c stringvar \<times> 'w \<Rightarrow> (call_outcome \<times> 'c stringvar \<times> 'w) option)
     \<Rightarrow> ('v \<Rightarrow> py_exc + string) \<Rightarrow> 'v \<Rightarrow> 'c stringvar \<Rightarrow> 'w
     \<Rightarrow> (py_exc option \<times> 'c stringvar \<times> 'w \<times> 'c list) option" where
  "FakeStringVar_set call str v sv w =
     (let old_value = sv_value sv
      in case str v of
           Inl e \<Rightarrow> Some (Some e, sv, w, [])
         | Inr s \<Rightarrow>
             (let sv1 = sv\<lparr>sv_value := s\<rparr>
              in if old_value \<noteq> sv_value sv1
                 then run_callbacks call sv_callbacks 0 sv1 w []
                 else Some (None, sv1, w, [])))"

text \<open>\<^verbatim>\<open>trace(mode, callback)\<close> appends the callback, then prints the mode; its result is
  \<^verbatim>\<open>f"trace_{len}"\<close>, given here by the number. The mode is taken to be a value that can be
  formatted, such as the mode strings of tkinter; the callback is appended in any case.\<close>

definition FakeStringVar_trace :: "'c \<Rightarrow> 'c stringvar \<Rightarrow> nat \<times> 'c stringvar" where
  "FakeStringVar_trace callback sv =
     (let sv' = sv\<lparr>sv_callbacks := sv_callbacks sv @ [callback]\<rparr>
      in (length (sv_callbacks sv'), sv'))"




subsection \<open>Python's \<^verbatim>\<open>int(s, base)\<close> on a string\<close>

text \<open>
  The builtin strips white space at both ends, reads an optional sign, for base 16 an
  optional \<^verbatim>\<open>0x\<close> prefix (and one underscore after it), and then digits of the base with
  single underscores between them. Anything else is a \<^verbatim>\<open>ValueError\<close>, here \<open>None\<close>.
  \<open>py_isspace\<close> is \<^verbatim>\<open>str.isspace\<close> on the code points below 256 (also the class \<^verbatim>\<open>\s\<close> of
  \<^verbatim>\<open>re\<close> and what \<^verbatim>\<open>str.strip()\<close> removes). \<^verbatim>\<open>int\<close> strips fewer characters: the ASCII
  white space and the two spaces above 127, not the separators \<^verbatim>\<open>\x1c\<close> to \<^verbatim>\<open>\x1f\<close>.
\<close>

definition py_isspace :: "char \<Rightarrow> bool" where
  "py_isspace c = (let n = (of_char c :: nat)
                   in (9 \<le> n \<and> n \<le> 13) \<or> (28 \<le> n \<and> n \<le> 32) \<or> n = 133 \<or> n = 160)"

definition int_isspace :: "char \<Rightarrow> bool" where
  "int_isspace c = (let n = (of_char c :: nat)
                    in (9 \<le> n \<and> n \<le> 13) \<or> n = 32 \<or> n = 133 \<or> n = 160)"

definition strip_with :: "(char \<Rightarrow> bool) \<Rightarrow> string \<Rightarrow> string" where
  "strip_with p s = rev (dropWhile p (rev (dropWhile p s)))"

definition py_strip :: "string \<Rightarrow> string" where
  "py_strip s = strip_with py_isspace s"

definition digit_val :: "nat \<Rightarrow> char \<Rightarrow> nat option" where
  "digit_val base c =
     (let n = (of_char c :: nat);
          d = (if 48 \<le> n \<and> n \<le> 57 then Some (n - 48)
               else if 97 \<le> n \<and> n \<le> 122 then Some (n - 87)
               else if 65 \<le> n \<and> n \<le> 90 then Some (n - 55)
               else None)
      in case d of None \<Rightarrow> None | Some v \<Rightarrow> if v < base then Some v else None)"

fun py_digits :: "nat \<Rightarrow> nat \<Rightarrow> string \<Rightarrow> nat option" where
  "py_digits base acc [] = None"
| "py_digits base acc (c # cs) =
     (case digit_val base c of
        None \<Rightarrow> None
      | Some d \<Rightarrow>
          (case cs of
             [] \<Rightarrow> Some (acc * base + d)
           | c2 # cs2 \<Rightarrow>
               if c2 = CHR ''_'' then py_digits base (acc * base + d) cs2
               else py_digits base (acc * base + d) cs))"

definition strip_base_prefix :: "nat \<Rightarrow> string \<Rightarrow> string" where
  "strip_base_prefix base s =
     (case s of
        c0 # c1 # rest \<Rightarrow>
          if c0 = CHR ''0'' \<and> base = 16 \<and> (c1 = CHR ''x'' \<or> c1 = CHR ''X'')
          then (case rest of u # rest' \<Rightarrow> if u = CHR ''_'' then rest' else rest | [] \<Rightarrow> rest)
          else s
      | _ \<Rightarrow> s)"

text \<open>
  CPython refuses to read a string with more digits than the interpreter's limit
  \<^verbatim>\<open>sys.get_int_max_str_digits()\<close> when the base is not a power of two, with a \<^verbatim>\<open>ValueError\<close>;
  underscores, sign and white space are not counted. The limit is 4300 unless it was
  configured, and 0 switches it off; it is the parameter \<open>max_digits\<close>. In the other
  direction, formatting an \<^verbatim>\<open>int\<close> in base 10 (\<^verbatim>\<open>str\<close>, an f-string) raises \<^verbatim>\<open>ValueError\<close> when
  the number has more digits than the limit.
\<close>

definition default_max_str_digits :: nat where
  "default_max_str_digits = 4300"

definition binary_base :: "nat \<Rightarrow> bool" where
  "binary_base base = (base = 2 \<or> base = 4 \<or> base = 8 \<or> base = 16 \<or> base = 32)"

definition digit_count :: "string \<Rightarrow> nat" where
  "digit_count ds = length (filter (\<lambda>c. c \<noteq> CHR ''_'') ds)"

definition limited_digits :: "nat \<Rightarrow> nat \<Rightarrow> string \<Rightarrow> nat option" where
  "limited_digits max_digits base ds =
     (if \<not> binary_base base \<and> 0 < max_digits \<and> max_digits < digit_count ds then None
      else py_digits base 0 ds)"

definition py_int_str :: "nat \<Rightarrow> nat \<Rightarrow> string \<Rightarrow> int option" where
  "py_int_str max_digits base s =
     (case strip_with int_isspace s of
        [] \<Rightarrow> None
      | c # cs \<Rightarrow>
          if c = CHR ''-''
          then map_option (\<lambda>n. - int n) (limited_digits max_digits base (strip_base_prefix base cs))
          else if c = CHR ''+''
          then map_option int (limited_digits max_digits base (strip_base_prefix base cs))
          else map_option int (limited_digits max_digits base (strip_base_prefix base (c # cs))))"


subsection \<open>Python's \<^verbatim>\<open>int(v)\<close> and \<^verbatim>\<open>float(v)\<close>\<close>







subsection \<open>\<^verbatim>\<open>FakeIntVar\<close> and \<^verbatim>\<open>FakeDoubleVar\<close> (lines 2506--2599)\<close>











subsection \<open>\<^verbatim>\<open>FakeEntry\<close>: \<^verbatim>\<open>get\<close>, \<^verbatim>\<open>set\<close>, \<^verbatim>\<open>insert\<close> (lines 2301--2325)\<close>













subsection \<open>Background colours of \<^verbatim>\<open>FakeButton\<close>, \<^verbatim>\<open>FakeFrame\<close>, \<^verbatim>\<open>FakeCanvas\<close>\<close>

text \<open>
  A colour is the tuple \<^verbatim>\<open>(r, g, b, a)\<close>; a component is the rational that the Python
  expression denotes (\<^verbatim>\<open>0.9\<close> is \<open>9/10\<close>, \<^verbatim>\<open>n / 255.0\<close> is \<open>n/255\<close>). The keyword arguments
  of the widget are a map. Each function is the part of \<^verbatim>\<open>_create_kivy_button\<close>
  (lines 508--540), \<^verbatim>\<open>_create_kivy_frame\<close> (954--977) and \<^verbatim>\<open>_create_kivy_canvas\<close> (1155--1180)
  that computes the background: \<open>None\<close> when the method sets no background, which includes
  the case that Kivy cannot be imported (the \<^verbatim>\<open>import\<close> is the first statement of the
  \<^verbatim>\<open>try\<close>, and \<^verbatim>\<open>ImportError\<close> skips the rest).
\<close>

type_synonym color = "rat \<times> rat \<times> rat \<times> rat"

type_synonym kwargs = "string \<rightharpoonup> pyval"

text \<open>\<^verbatim>\<open>self.kwargs.get('bg', self.kwargs.get('background'))\<close>\<close>

definition bg_argument :: "kwargs \<Rightarrow> pyval" where
  "bg_argument kw =
     (case kw ''bg'' of
        Some v \<Rightarrow> v
      | None \<Rightarrow> (case kw ''background'' of Some v \<Rightarrow> v | None \<Rightarrow> PyNone))"

text \<open>The \<^verbatim>\<open>try\<close> block on a colour string that starts with \<^verbatim>\<open>#\<close>: three calls of
  \<^verbatim>\<open>int(..., 16)\<close>, a bare \<^verbatim>\<open>except\<close> that gives the default. The digit limit plays no part
  in base 16.\<close>

definition hex_color :: "color \<Rightarrow> string \<Rightarrow> color" where
  "hex_color dflt color =
     (let hex_color = drop 1 color
      in if length hex_color = 6 then
           (case py_int_str default_max_str_digits 16 (take 2 hex_color) of
              None \<Rightarrow> dflt
            | Some r \<Rightarrow>
                (case py_int_str default_max_str_digits 16 (take 2 (drop 2 hex_color)) of
                   None \<Rightarrow> dflt
                 | Some g \<Rightarrow>
                     (case py_int_str default_max_str_digits 16 (take 2 (drop 4 hex_color)) of
                        None \<Rightarrow> dflt
                      | Some b \<Rightarrow> (of_int r / 255, of_int g / 255, of_int b / 255, 1))))
         else dflt)"

definition startswith_hash :: "pyval \<Rightarrow> bool" where
  "startswith_hash v = (case v of PyStr (c # cs) \<Rightarrow> c = CHR ''#'' | _ \<Rightarrow> False)"

definition str_of :: "pyval \<Rightarrow> string" where
  "str_of v = (case v of PyStr s \<Rightarrow> s | _ \<Rightarrow> [])"

definition light_gray :: color where
  "light_gray = (9 / 10, 9 / 10, 9 / 10, 1)"

definition white :: color where
  "white = (1, 1, 1, 1)"

definition FakeButton_background_color :: "bool \<Rightarrow> kwargs \<Rightarrow> color option" where
  "FakeButton_background_color kivy kw =
     (if \<not> kivy then None
      else if kw ''bg'' \<noteq> None \<or> kw ''background'' \<noteq> None then
        (let color = bg_argument kw
         in if color \<noteq> PyNone \<and> color \<noteq> PyStr [] then
              (if color = PyStr ''white'' then Some (1, 1, 1, 1)
               else if color = PyStr ''black'' then Some (0, 0, 0, 1)
               else if color = PyStr ''blue'' then Some (0, 0, 1, 1)
               else if color = PyStr ''red'' then Some (1, 0, 0, 1)
               else if color = PyStr ''green'' then Some (0, 1, 0, 1)
               else if color = PyStr ''gray'' \<or> color = PyStr ''grey'' then Some (1 / 2, 1 / 2, 1 / 2, 1)
               else if startswith_hash color then Some (hex_color light_gray (str_of color))
               else Some light_gray)
            else Some light_gray)
      else None)"

definition FakeFrame_bg_color :: "bool \<Rightarrow> kwargs \<Rightarrow> color option" where
  "FakeFrame_bg_color kivy kw =
     (if \<not> kivy then None
      else if kw ''bg'' \<noteq> None \<or> kw ''background'' \<noteq> None then
        (let color = bg_argument kw
         in if color \<noteq> PyNone \<and> color \<noteq> PyStr [] then
              (if color = PyStr ''white'' then Some (1, 1, 1, 1)
               else if color = PyStr ''black'' then Some (0, 0, 0, 1)
               else if startswith_hash color then Some (hex_color light_gray (str_of color))
               else Some light_gray)
            else Some light_gray)
      else None)"

definition FakeCanvas_bg_color :: "bool \<Rightarrow> kwargs \<Rightarrow> color option" where
  "FakeCanvas_bg_color kivy kw =
     (if \<not> kivy then None
      else if kw ''bg'' \<noteq> None \<or> kw ''background'' \<noteq> None then
        (let color = bg_argument kw
         in if color \<noteq> PyNone \<and> color \<noteq> PyStr [] then
              (if color = PyStr ''white'' then Some (1, 1, 1, 1)
               else if color = PyStr ''black'' then Some (0, 0, 0, 1)
               else if startswith_hash color then Some (hex_color white (str_of color))
               else Some white)
            else Some white)
      else Some white)"

text \<open>The value of a hexadecimal digit, for stating what six digits denote.\<close>

definition is_hex_digit :: "char \<Rightarrow> bool" where
  "is_hex_digit c = (c \<in> set ''0123456789abcdefABCDEF'')"

definition hex_pair :: "char \<Rightarrow> char \<Rightarrow> int" where
  "hex_pair a b = int (16 * the (digit_val 16 a) + the (digit_val 16 b))"

subsection \<open>\<^verbatim>\<open>auto_translate_mode\<close> and \<^verbatim>\<open>disable_auto_translate\<close> (lines 39--49, 3384--3671)\<close>

text \<open>
  The classes that \<^verbatim>\<open>auto_translate_mode\<close> defines, and the objects it stores: a class, a
  function (by its name), a string constant, a module made with \<^verbatim>\<open>types.ModuleType\<close>
  (its name and the attributes assigned to it, in the order of the assignments), or an
  object from elsewhere, such as the real \<^verbatim>\<open>tkinter\<close> module.
\<close>

datatype fake_class =
    FakeTk | FakeButton | FakeLabel | FakeFrame | FakeCanvas | FakeScrollbar | FakeMenu
  | FakeNotebook | FakeEntry | FakeStringVar | FakeIntVar | FakeDoubleVar | FakeBooleanVar
  | FakeCheckbutton | FakeRadiobutton | FakeText | FakeFont

datatype pyobj =
    Class fake_class
  | Function string
  | Str string
  | Module string "(string \<times> pyobj) list"
  | Foreign nat

definition py_getattr :: "pyobj \<Rightarrow> string \<Rightarrow> pyobj option" where
  "py_getattr m a = (case m of Module name attrs \<Rightarrow> map_of attrs a | _ \<Rightarrow> None)"

definition fake_font_module :: pyobj where
  "fake_font_module = Module ''tkinter.font''
     [(''Font'', Function ''Font''), (''nametofont'', Function ''nametofont''),
      (''NORMAL'', Str ''normal''), (''BOLD'', Str ''bold''),
      (''ITALIC'', Str ''italic''), (''ROMAN'', Str ''roman'')]"

definition fake_messagebox_module :: pyobj where
  "fake_messagebox_module = Module ''tkinter.messagebox''
     [(''showinfo'', Function ''showinfo''), (''showerror'', Function ''showerror''),
      (''showwarning'', Function ''showwarning''), (''askyesno'', Function ''askyesno''),
      (''askokcancel'', Function ''askokcancel''), (''askretrycancel'', Function ''askretrycancel''),
      (''askyesnocancel'', Function ''askyesnocancel''),
      (''OK'', Str ''ok''), (''CANCEL'', Str ''cancel''), (''YES'', Str ''yes''), (''NO'', Str ''no''),
      (''RETRY'', Str ''retry''), (''IGNORE'', Str ''ignore''), (''ABORT'', Str ''abort'')]"

definition fake_ttk_module :: pyobj where
  "fake_ttk_module = Module ''tkinter.ttk''
     [(''Button'', Class FakeButton), (''Label'', Class FakeLabel), (''Entry'', Class FakeEntry),
      (''Frame'', Class FakeFrame), (''Checkbutton'', Class FakeCheckbutton),
      (''Radiobutton'', Class FakeRadiobutton), (''Text'', Class FakeText),
      (''Scale'', Class FakeLabel), (''Progressbar'', Class FakeLabel),
      (''Combobox'', Class FakeLabel), (''Treeview'', Class FakeLabel),
      (''Notebook'', Class FakeNotebook), (''Separator'', Class FakeLabel),
      (''Scrollbar'', Class FakeScrollbar)]"

definition fake_tkinter :: pyobj where
  "fake_tkinter = Module ''tkinter''
     [(''Tk'', Class FakeTk), (''Button'', Class FakeButton), (''Label'', Class FakeLabel),
      (''Entry'', Class FakeEntry), (''Text'', Class FakeText), (''Frame'', Class FakeFrame),
      (''Canvas'', Class FakeCanvas), (''Scrollbar'', Class FakeScrollbar),
      (''Menu'', Class FakeMenu), (''Notebook'', Class FakeNotebook),
      (''Checkbutton'', Class FakeCheckbutton), (''Radiobutton'', Class FakeRadiobutton),
      (''StringVar'', Class FakeStringVar), (''IntVar'', Class FakeIntVar),
      (''DoubleVar'', Class FakeDoubleVar), (''BooleanVar'', Class FakeBooleanVar),
      (''font'', fake_font_module), (''ttk'', fake_ttk_module),
      (''messagebox'', fake_messagebox_module)]"

text \<open>The interpreter state the two functions touch: \<^verbatim>\<open>sys.modules\<close> and the module-level
  dictionary \<^verbatim>\<open>_original_modules\<close>.\<close>

record interp =
  sys_modules :: "string \<rightharpoonup> pyobj"
  original_modules :: "string \<rightharpoonup> pyobj"

definition auto_translate_mode :: "interp \<Rightarrow> pyobj \<times> interp" where
  "auto_translate_mode st =
     (let st1 = (case sys_modules st ''tkinter'' of
                   Some m \<Rightarrow> st\<lparr>original_modules := (original_modules st)(''tkinter'' \<mapsto> m)\<rparr>
                 | None \<Rightarrow> st);
          st2 = st1\<lparr>sys_modules := (sys_modules st1)
                   (''tkinter'' \<mapsto> fake_tkinter,
                    ''tkinter.font'' \<mapsto> fake_font_module,
                    ''tkinter.ttk'' \<mapsto> fake_ttk_module,
                    ''tkinter.messagebox'' \<mapsto> fake_messagebox_module)\<rparr>
      in (fake_tkinter, st2))"

definition del_if_present :: "string \<Rightarrow> (string \<rightharpoonup> pyobj) \<Rightarrow> (string \<rightharpoonup> pyobj)" where
  "del_if_present k m = (if m k \<noteq> None then m(k := None) else m)"

definition disable_auto_translate :: "interp \<Rightarrow> interp" where
  "disable_auto_translate st =
     (let m1 = (case original_modules st ''tkinter'' of
                  Some orig \<Rightarrow> (sys_modules st)(''tkinter'' \<mapsto> orig)
                | None \<Rightarrow> del_if_present ''tkinter'' (sys_modules st));
          m2 = del_if_present ''tkinter.font'' m1;
          m3 = del_if_present ''tkinter.ttk'' m2;
          m4 = del_if_present ''tkinter.messagebox'' m3
      in st\<lparr>sys_modules := m4\<rparr>)"

text \<open>The attributes that are classes: the names assigned on the fake \<^verbatim>\<open>tkinter\<close>
  module.\<close>

definition tkinter_class_attributes :: "(string \<times> fake_class) list" where
  "tkinter_class_attributes =
     [(''Tk'', FakeTk), (''Button'', FakeButton), (''Label'', FakeLabel), (''Frame'', FakeFrame),
      (''Canvas'', FakeCanvas), (''Scrollbar'', FakeScrollbar), (''Menu'', FakeMenu),
      (''Entry'', FakeEntry), (''Text'', FakeText), (''StringVar'', FakeStringVar),
      (''IntVar'', FakeIntVar), (''DoubleVar'', FakeDoubleVar), (''BooleanVar'', FakeBooleanVar),
      (''Notebook'', FakeNotebook), (''Checkbutton'', FakeCheckbutton),
      (''Radiobutton'', FakeRadiobutton)]"

subsection \<open>Geometry methods \<^verbatim>\<open>pack\<close> and \<^verbatim>\<open>grid\<close> of the fake widgets\<close>

text \<open>
  \<^verbatim>\<open>pack\<close> mutates the parent object (\<^verbatim>\<open>self.parent._widgets.append(...)\<close>) and, through a
  parent frame, the Kivy widget tree, so objects live in a store and are named by their
  addresses. The value of \<^verbatim>\<open>self.kivy_button\<close>, \<^verbatim>\<open>self.kivy_label\<close>, ... is a Kivy widget or,
  when Kivy cannot be imported, a string such as \<^verbatim>\<open>f"Button({self.kwargs})"\<close>.

  A fake object records its class, the address of \<^verbatim>\<open>self.parent\<close> (\<open>None\<close> when the parent is
  not one of the fake objects, and so has no \<^verbatim>\<open>_widgets\<close>), its \<^verbatim>\<open>_widgets\<close> list when the class
  has one (\<^verbatim>\<open>FakeTk\<close>, \<^verbatim>\<open>FakeFrame\<close>) and its \<^verbatim>\<open>kivy_...\<close> attribute. Only \<^verbatim>\<open>FakeFrame\<close> defines
  \<^verbatim>\<open>_add_child_to_layout\<close>.

  Of Kivy, the model keeps what \<^verbatim>\<open>add_widget\<close> and \<^verbatim>\<open>children\<close> show: \<^verbatim>\<open>add_widget\<close> raises
  \<^verbatim>\<open>WidgetException\<close> when the widget is the layout itself or already has a parent, and
  otherwise sets the widget's parent and inserts it at the front of \<^verbatim>\<open>children\<close>.
\<close>

datatype kobj = KivyObj nat | SimStr string

record kivy_node =
  kn_children :: "nat list"
  kn_parent :: "nat option"

record fake_widget =
  fw_class :: fake_class
  fw_parent :: "nat option"
  fw_widgets :: "kobj list option"
  fw_kivy :: "kobj option"

record world =
  fake_objs :: "nat \<rightharpoonup> fake_widget"
  kivy_nodes :: "nat \<rightharpoonup> kivy_node"

definition kivy_add_widget :: "nat \<Rightarrow> nat \<Rightarrow> (nat \<rightharpoonup> kivy_node) \<Rightarrow> py_exc + (nat \<rightharpoonup> kivy_node)" where
  "kivy_add_widget layout child ks =
     (case ks layout of
        None \<Rightarrow> Inl (OtherException ''AttributeError'')
      | Some l \<Rightarrow>
          (case ks child of
             None \<Rightarrow> Inl (OtherException ''WidgetException'')
           | Some c \<Rightarrow>
               if child = layout then Inl (OtherException ''WidgetException'')
               else if kn_parent c \<noteq> None then Inl (OtherException ''WidgetException'')
               else Inr (ks(child \<mapsto> c\<lparr>kn_parent := Some layout\<rparr>,
                            layout \<mapsto> l\<lparr>kn_children := child # kn_children l\<rparr>))))"

definition kivy_children :: "nat \<Rightarrow> (nat \<rightharpoonup> kivy_node) \<Rightarrow> nat list" where
  "kivy_children layout ks = (case ks layout of None \<Rightarrow> [] | Some l \<Rightarrow> kn_children l)"

text \<open>\<^verbatim>\<open>FakeFrame._add_child_to_layout\<close> (lines 1029--1039); the same statements are the body
  of the loop that opens \<^verbatim>\<open>FakeFrame.pack\<close>. A caught exception is printed.\<close>

definition FakeFrame_add_child_to_layout :: "nat \<Rightarrow> kobj \<Rightarrow> world \<Rightarrow> world" where
  "FakeFrame_add_child_to_layout self child_widget w =
     (case fake_objs w self of
        None \<Rightarrow> w
      | Some me \<Rightarrow>
          (case fw_kivy me of
             Some (KivyObj kivy_frame) \<Rightarrow>
               (case child_widget of
                  KivyObj child \<Rightarrow>
                    if child \<notin> set (kivy_children kivy_frame (kivy_nodes w)) then
                      (case kivy_add_widget kivy_frame child (kivy_nodes w) of
                         Inr ks \<Rightarrow> w\<lparr>kivy_nodes := ks\<rparr>
                       | Inl e \<Rightarrow> w)
                    else w
                | SimStr s \<Rightarrow> w)
           | _ \<Rightarrow> w))"

text \<open>\<^verbatim>\<open>self.parent._widgets.append(x)\<close>, when \<^verbatim>\<open>self.parent\<close> has the attribute.\<close>

definition parent_with_widgets :: "fake_widget \<Rightarrow> world \<Rightarrow> (nat \<times> fake_widget \<times> kobj list) option" where
  "parent_with_widgets me w =
     (case fw_parent me of
        None \<Rightarrow> None
      | Some pa \<Rightarrow>
          (case fake_objs w pa of
             None \<Rightarrow> None
           | Some po \<Rightarrow> (case fw_widgets po of None \<Rightarrow> None | Some ws \<Rightarrow> Some (pa, po, ws))))"

definition append_to_parent :: "nat \<Rightarrow> fake_widget \<Rightarrow> kobj list \<Rightarrow> kobj \<Rightarrow> world \<Rightarrow> world" where
  "append_to_parent pa po ws x w = w\<lparr>fake_objs := (fake_objs w)(pa \<mapsto> po\<lparr>fw_widgets := Some (ws @ [x])\<rparr>)\<rparr>"

text \<open>The body shared, up to the attribute name and the message, by \<^verbatim>\<open>FakeButton.pack\<close>
  (617--625), \<^verbatim>\<open>FakeLabel.pack\<close> (896--904), \<^verbatim>\<open>FakeCanvas.pack\<close> (1208--1216) and
  \<^verbatim>\<open>FakeScrollbar.pack\<close> (1679--1687): append, then add to a parent frame's layout.\<close>

definition pack_append_and_layout :: "nat \<Rightarrow> world \<Rightarrow> world" where
  "pack_append_and_layout self w =
     (case fake_objs w self of
        None \<Rightarrow> w
      | Some me \<Rightarrow>
          (case parent_with_widgets me w of
             None \<Rightarrow> w
           | Some (pa, po, ws) \<Rightarrow>
               (case fw_kivy me of
                  None \<Rightarrow> w
                | Some k \<Rightarrow>
                    (let w1 = append_to_parent pa po ws k w
                     in if fw_class po = FakeFrame then FakeFrame_add_child_to_layout pa k w1
                        else w1))))"

text \<open>The body shared by the \<^verbatim>\<open>pack\<close> of \<^verbatim>\<open>FakeNotebook\<close> (2132--2137), \<^verbatim>\<open>FakeEntry\<close>
  (2389--2394), \<^verbatim>\<open>FakeCheckbutton\<close> (2754--2759), \<^verbatim>\<open>FakeRadiobutton\<close> (2933--2938) and
  \<^verbatim>\<open>FakeText\<close> (3266--3271): append only.\<close>

definition pack_append :: "nat \<Rightarrow> world \<Rightarrow> world" where
  "pack_append self w =
     (case fake_objs w self of
        None \<Rightarrow> w
      | Some me \<Rightarrow>
          (case parent_with_widgets me w of
             None \<Rightarrow> w
           | Some (pa, po, ws) \<Rightarrow>
               (case fw_kivy me of
                  None \<Rightarrow> w
                | Some k \<Rightarrow> append_to_parent pa po ws k w)))"

text \<open>Every \<^verbatim>\<open>pack(self, **kwargs)\<close> ignores its keyword arguments.\<close>

definition FakeButton_pack :: "kwargs \<Rightarrow> nat \<Rightarrow> world \<Rightarrow> world" where
  "FakeButton_pack kw self w = pack_append_and_layout self w"

definition FakeLabel_pack :: "kwargs \<Rightarrow> nat \<Rightarrow> world \<Rightarrow> world" where
  "FakeLabel_pack kw self w = pack_append_and_layout self w"

definition FakeCanvas_pack :: "kwargs \<Rightarrow> nat \<Rightarrow> world \<Rightarrow> world" where
  "FakeCanvas_pack kw self w = pack_append_and_layout self w"

definition FakeScrollbar_pack :: "kwargs \<Rightarrow> nat \<Rightarrow> world \<Rightarrow> world" where
  "FakeScrollbar_pack kw self w = pack_append_and_layout self w"

definition FakeNotebook_pack :: "kwargs \<Rightarrow> nat \<Rightarrow> world \<Rightarrow> world" where
  "FakeNotebook_pack kw self w = pack_append self w"

definition FakeEntry_pack :: "kwargs \<Rightarrow> nat \<Rightarrow> world \<Rightarrow> world" where
  "FakeEntry_pack kw self w = pack_append self w"

definition FakeCheckbutton_pack :: "kwargs \<Rightarrow> nat \<Rightarrow> world \<Rightarrow> world" where
  "FakeCheckbutton_pack kw self w = pack_append self w"

definition FakeRadiobutton_pack :: "kwargs \<Rightarrow> nat \<Rightarrow> world \<Rightarrow> world" where
  "FakeRadiobutton_pack kw self w = pack_append self w"

definition FakeText_pack :: "kwargs \<Rightarrow> nat \<Rightarrow> world \<Rightarrow> world" where
  "FakeText_pack kw self w = pack_append self w"

text \<open>\<^verbatim>\<open>FakeFrame.pack\<close> (1010--1027): first the frame's own children go into its Kivy
  layout, then the frame's layout is appended to the parent's list.\<close>

definition FakeFrame_pack :: "kwargs \<Rightarrow> nat \<Rightarrow> world \<Rightarrow> world" where
  "FakeFrame_pack kw self w =
     (case fake_objs w self of
        None \<Rightarrow> w
      | Some me \<Rightarrow>
          (let w1 = foldl (\<lambda>v child_widget. FakeFrame_add_child_to_layout self child_widget v) w
                      (case fw_widgets me of None \<Rightarrow> [] | Some ws \<Rightarrow> ws)
           in case fake_objs w1 self of
                None \<Rightarrow> w1
              | Some me1 \<Rightarrow>
                  (case parent_with_widgets me1 w1 of
                     None \<Rightarrow> w1
                   | Some (pa, po, ws) \<Rightarrow>
                       (case fw_kivy me1 of
                          None \<Rightarrow> w1
                        | Some k \<Rightarrow> append_to_parent pa po ws k w1))))"

text \<open>Every \<^verbatim>\<open>grid(self, **kwargs)\<close> is the one statement \<^verbatim>\<open>self.pack(**kwargs)\<close>.\<close>

definition FakeButton_grid :: "kwargs \<Rightarrow> nat \<Rightarrow> world \<Rightarrow> world" where
  "FakeButton_grid kw self w = FakeButton_pack kw self w"

definition FakeLabel_grid :: "kwargs \<Rightarrow> nat \<Rightarrow> world \<Rightarrow> world" where
  "FakeLabel_grid kw self w = FakeLabel_pack kw self w"

definition FakeFrame_grid :: "kwargs \<Rightarrow> nat \<Rightarrow> world \<Rightarrow> world" where
  "FakeFrame_grid kw self w = FakeFrame_pack kw self w"

definition FakeCanvas_grid :: "kwargs \<Rightarrow> nat \<Rightarrow> world \<Rightarrow> world" where
  "FakeCanvas_grid kw self w = FakeCanvas_pack kw self w"

definition FakeScrollbar_grid :: "kwargs \<Rightarrow> nat \<Rightarrow> world \<Rightarrow> world" where
  "FakeScrollbar_grid kw self w = FakeScrollbar_pack kw self w"

definition FakeNotebook_grid :: "kwargs \<Rightarrow> nat \<Rightarrow> world \<Rightarrow> world" where
  "FakeNotebook_grid kw self w = FakeNotebook_pack kw self w"

definition FakeEntry_grid :: "kwargs \<Rightarrow> nat \<Rightarrow> world \<Rightarrow> world" where
  "FakeEntry_grid kw self w = FakeEntry_pack kw self w"

definition FakeCheckbutton_grid :: "kwargs \<Rightarrow> nat \<Rightarrow> world \<Rightarrow> world" where
  "FakeCheckbutton_grid kw self w = FakeCheckbutton_pack kw self w"

definition FakeRadiobutton_grid :: "kwargs \<Rightarrow> nat \<Rightarrow> world \<Rightarrow> world" where
  "FakeRadiobutton_grid kw self w = FakeRadiobutton_pack kw self w"

definition FakeText_grid :: "kwargs \<Rightarrow> nat \<Rightarrow> world \<Rightarrow> world" where
  "FakeText_grid kw self w = FakeText_pack kw self w"

subsection \<open>The regular expressions of the textual translator\<close>

text \<open>
  The patterns of \<^verbatim>\<open>translate_imports\<close> and \<^verbatim>\<open>translate_button\<close> use literals, the classes
  \<^verbatim>\<open>\s\<close>, \<^verbatim>\<open>\w\<close>, \<^verbatim>\<open>.\<close> and \<^verbatim>\<open>[^,]\<close>, greedy and lazy repetition of a class, an optional
  group, capturing groups, one look-ahead and \<^verbatim>\<open>$\<close>. \<open>rx_match r s\<close> is the backtracking
  matcher of \<^verbatim>\<open>re\<close>: every way in which \<open>r\<close> matches a prefix of \<open>s\<close>, in the order in which
  \<^verbatim>\<open>re\<close> tries them, each with the captured groups and the rest of \<open>s\<close>.
\<close>

datatype rx =
    Eps
  | Lit char
  | Cls "char \<Rightarrow> bool"
  | Seq rx rx
  | Alt rx rx
  | Opt rx
  | Star "char \<Rightarrow> bool"
  | LazyStar "char \<Rightarrow> bool"
  | Group rx
  | Ahead rx
  | Eos

primrec star_greedy :: "(char \<Rightarrow> bool) \<Rightarrow> string \<Rightarrow> (string list \<times> string) list" where
  "star_greedy p [] = [([], [])]"
| "star_greedy p (c # cs) = (if p c then star_greedy p cs @ [([], c # cs)] else [([], c # cs)])"

primrec star_lazy :: "(char \<Rightarrow> bool) \<Rightarrow> string \<Rightarrow> (string list \<times> string) list" where
  "star_lazy p [] = [([], [])]"
| "star_lazy p (c # cs) = ([], c # cs) # (if p c then star_lazy p cs else [])"

text \<open>\<^verbatim>\<open>$\<close> (without \<^verbatim>\<open>re.MULTILINE\<close>) matches at the end and before a final newline.\<close>

primrec rx_match :: "rx \<Rightarrow> string \<Rightarrow> (string list \<times> string) list" where
  "rx_match Eps s = [([], s)]"
| "rx_match (Lit c) s = (case s of [] \<Rightarrow> [] | x # xs \<Rightarrow> if x = c then [([], xs)] else [])"
| "rx_match (Cls p) s = (case s of [] \<Rightarrow> [] | x # xs \<Rightarrow> if p x then [([], xs)] else [])"
| "rx_match (Seq a b) s =
     concat (map (\<lambda>(g1, t). map (\<lambda>(g2, u). (g1 @ g2, u)) (rx_match b t)) (rx_match a s))"
| "rx_match (Alt a b) s = rx_match a s @ rx_match b s"
| "rx_match (Opt a) s = rx_match a s @ [([], s)]"
| "rx_match (Star p) s = star_greedy p s"
| "rx_match (LazyStar p) s = star_lazy p s"
| "rx_match (Group a) s = map (\<lambda>(g, t). (take (length s - length t) s # g, t)) (rx_match a s)"
| "rx_match (Ahead a) s = (if rx_match a s = [] then [] else [([], s)])"
| "rx_match Eos s = (if s = [] \<or> s = [CHR 0x0A] then [([], s)] else [])"

text \<open>\<^verbatim>\<open>re.search\<close>: the first match at the leftmost position that has one; the result is
  the list of its groups.\<close>

primrec rx_search :: "rx \<Rightarrow> string \<Rightarrow> string list option" where
  "rx_search r [] = (case rx_match r [] of [] \<Rightarrow> None | m # ms \<Rightarrow> Some (fst m))"
| "rx_search r (c # cs) =
     (case rx_match r (c # cs) of [] \<Rightarrow> rx_search r cs | m # ms \<Rightarrow> Some (fst m))"

text \<open>\<^verbatim>\<open>re.findall\<close>: the groups of the successive matches, each search starting where the
  match before ended (one character further after an empty match).\<close>

function rx_findall :: "rx \<Rightarrow> string \<Rightarrow> string list list" where
  "rx_findall r s =
     (case rx_match r s of
        [] \<Rightarrow> (case s of [] \<Rightarrow> [] | c # cs \<Rightarrow> rx_findall r cs)
      | m # ms \<Rightarrow>
          if length (snd m) < length s then fst m # rx_findall r (snd m)
          else (case s of [] \<Rightarrow> [fst m] | c # cs \<Rightarrow> fst m # rx_findall r cs))"
  by pat_completeness auto
termination
  by (relation "measure (\<lambda>(r, s). length s)") auto

definition rx_lit :: "string \<Rightarrow> rx" where
  "rx_lit w = foldr (\<lambda>c r. Seq (Lit c) r) w Eps"

definition rx_seq :: "rx list \<Rightarrow> rx" where
  "rx_seq rs = foldr Seq rs Eps"

text \<open>\<^verbatim>\<open>\w\<close> on the code points below 256: letters, digits, other numeric characters and the
  underscore.\<close>

definition py_isword :: "char \<Rightarrow> bool" where
  "py_isword c =
     (let n = (of_char c :: nat)
      in (48 \<le> n \<and> n \<le> 57) \<or> (65 \<le> n \<and> n \<le> 90) \<or> n = 95 \<or> (97 \<le> n \<and> n \<le> 122)
         \<or> n = 170 \<or> n = 178 \<or> n = 179 \<or> n = 181 \<or> n = 185 \<or> n = 186
         \<or> (188 \<le> n \<and> n \<le> 190) \<or> (192 \<le> n \<and> n \<le> 214) \<or> (216 \<le> n \<and> n \<le> 246)
         \<or> 248 \<le> n)"

definition spaces1 :: rx where
  "spaces1 = Seq (Cls py_isspace) (Star py_isspace)"

definition spaces0 :: rx where
  "spaces0 = Star py_isspace"

definition word1 :: rx where
  "word1 = Seq (Cls py_isword) (Star py_isword)"

subsection \<open>\<^verbatim>\<open>translate_imports\<close> (lines 3673--3711)\<close>

text \<open>\<^verbatim>\<open>r'import\s+tkinter\s+as\s+tk'\<close>, \<^verbatim>\<open>r'from\s+tkinter\s+import'\<close>, \<^verbatim>\<open>r'import\s+tkinter'\<close>\<close>

definition import_as_pattern :: rx where
  "import_as_pattern =
     rx_seq [rx_lit ''import'', spaces1, rx_lit ''tkinter'', spaces1, rx_lit ''as'', spaces1, rx_lit ''tk'']"

definition from_import_pattern :: rx where
  "from_import_pattern = rx_seq [rx_lit ''from'', spaces1, rx_lit ''tkinter'', spaces1, rx_lit ''import'']"

definition import_pattern :: rx where
  "import_pattern = rx_seq [rx_lit ''import'', spaces1, rx_lit ''tkinter'']"

fun py_join :: "string \<Rightarrow> string list \<Rightarrow> string" where
  "py_join sep [] = []"
| "py_join sep [x] = x"
| "py_join sep (x # y # ys) = x @ sep @ py_join sep (y # ys)"

definition translate_imports :: "string \<Rightarrow> string" where
  "translate_imports tkinter_code =
     (let kivy_imports =
        (if rx_search import_as_pattern tkinter_code \<noteq> None then
           [''from kivy.app import App'',
            ''from kivy.uix.boxlayout import BoxLayout'',
            ''from kivy.uix.button import Button'',
            ''from kivy.uix.label import Label'']
         else if rx_search from_import_pattern tkinter_code \<noteq> None then
           [''from kivy.app import App'',
            ''from kivy.uix.boxlayout import BoxLayout'',
            ''from kivy.uix.button import Button'',
            ''from kivy.uix.label import Label'']
         else if rx_search import_pattern tkinter_code \<noteq> None then
           [''from kivy.app import App'',
            ''from kivy.uix.boxlayout import BoxLayout'',
            ''from kivy.uix.button import Button'',
            ''from kivy.uix.label import Label'']
         else [])
      in py_join [CHR 0x0A] kivy_imports)"

text \<open>The four lines that the three branches return.\<close>

definition kivy_import_block :: string where
  "kivy_import_block =
     ''from kivy.app import App'' @ [CHR 0x0A] @
     ''from kivy.uix.boxlayout import BoxLayout'' @ [CHR 0x0A] @
     ''from kivy.uix.button import Button'' @ [CHR 0x0A] @
     ''from kivy.uix.label import Label''"

subsection \<open>\<^verbatim>\<open>translate_button\<close> (lines 3744--3847)\<close>

definition param_mappings :: "string \<rightharpoonup> string option" where
  "param_mappings = map_of
     [(''text'', Some ''text''),
      (''command'', Some ''on_press''),
      (''width'', Some ''size_hint_x''),
      (''height'', Some ''size_hint_y''),
      (''bg'', Some ''background_color''),
      (''background'', Some ''background_color''),
      (''fg'', Some ''color''),
      (''foreground'', Some ''color''),
      (''font'', Some ''font_name''),
      (''state'', Some ''disabled''),
      (''relief'', None),
      (''bd'', None),
      (''borderwidth'', None),
      (''padx'', None),
      (''pady'', None)]"

text \<open>\<^verbatim>\<open>r'(?:tk\.)?Button\s*\((.*?)\)'\<close> with \<^verbatim>\<open>re.DOTALL\<close>, split into the part up to the
  opening parenthesis and the rest.\<close>

definition button_open_pattern :: rx where
  "button_open_pattern = rx_seq [Opt (rx_lit ''tk.''), rx_lit ''Button'', spaces0, Lit CHR ''('']"

definition button_pattern :: rx where
  "button_pattern = Seq button_open_pattern (Seq (Group (LazyStar (\<lambda>c. True))) (Lit CHR '')''))"

text \<open>\<^verbatim>\<open>r'(\w+)\s*=\s*([^,]+?)(?=,\s*\w+\s*=|$)'\<close> and \<^verbatim>\<open>r'(\w+)'\<close>\<close>

definition param_pattern :: rx where
  "param_pattern =
     rx_seq [Group word1, spaces0, Lit CHR ''='', spaces0,
             Group (Seq (Cls (\<lambda>c. c \<noteq> CHR '','')) (LazyStar (\<lambda>c. c \<noteq> CHR '',''))),
             Ahead (Alt (rx_seq [Lit CHR '','', spaces0, word1, spaces0, Lit CHR ''='']) Eos)]"

definition func_pattern :: rx where
  "func_pattern = Group word1"

text \<open>\<^verbatim>\<open>s.split(',')\<close>, \<^verbatim>\<open>'=' in s\<close> and \<^verbatim>\<open>'DISABLED' in s.upper()\<close>. No character below 256
  other than the letters \<^verbatim>\<open>a\<close> to \<^verbatim>\<open>z\<close> has an upper case that occurs in \<^verbatim>\<open>DISABLED\<close> in a
  way that can complete the word (\<^verbatim>\<open>\xdf\<close> becomes \<^verbatim>\<open>SS\<close>), so the test is made on the ASCII
  upper case.\<close>

fun py_split :: "char \<Rightarrow> string \<Rightarrow> string list" where
  "py_split sep [] = [[]]"
| "py_split sep (c # cs) =
     (if c = sep then [] # py_split sep cs
      else (case py_split sep cs of [] \<Rightarrow> [[c]] | p # ps \<Rightarrow> (c # p) # ps))"

definition ascii_upper :: "char \<Rightarrow> char" where
  "ascii_upper c = (let n = (of_char c :: nat) in if 97 \<le> n \<and> n \<le> 122 then char_of (n - 32) else c)"

primrec contains :: "string \<Rightarrow> string \<Rightarrow> bool" where
  "contains sub [] = (sub = [])"
| "contains sub (c # cs) = (prefix sub (c # cs) \<or> contains sub cs)"

text \<open>The body of the loop over the parameters: the new \<^verbatim>\<open>kivy_params\<close> and
  \<^verbatim>\<open>kivy_bindings\<close>.\<close>

definition translate_param :: "string list \<Rightarrow> string list \<times> string list \<Rightarrow> string list \<times> string list" where
  "translate_param param acc =
     (let (kivy_params, kivy_bindings) = acc;
          param_name = py_strip (param ! 0);
          param_value = py_strip (param ! 1)
      in case param_mappings param_name of
           Some kivy_param_opt \<Rightarrow>
             (case kivy_param_opt of
                None \<Rightarrow> (kivy_params, kivy_bindings)
              | Some kivy_param \<Rightarrow>
                  if param_name = ''command'' then
                    (case rx_search func_pattern param_value of
                       Some groups \<Rightarrow>
                         (kivy_params,
                          kivy_bindings @ [''button.bind(on_press='' @ groups ! 0 @ '')''])
                     | None \<Rightarrow> (kivy_params, kivy_bindings))
                  else if param_name = ''state'' then
                    (if contains ''DISABLED'' (map ascii_upper param_value)
                     then (kivy_params @ [''disabled=True''], kivy_bindings)
                     else (kivy_params @ [''disabled=False''], kivy_bindings))
                  else if param_name = ''width'' \<or> param_name = ''height'' then
                    (if param_name = ''width''
                     then (kivy_params @ [kivy_param @ ''=None''] @ [''width='' @ param_value],
                           kivy_bindings)
                     else (kivy_params @ [kivy_param @ ''=None''] @ [''height='' @ param_value],
                           kivy_bindings))
                  else (kivy_params @ [kivy_param @ ''='' @ param_value], kivy_bindings))
         | None \<Rightarrow>
             (kivy_params @ [''# '' @ param_name @ ''='' @ param_value
                              @ ''  # No direct Kivy equivalent''],
              kivy_bindings))"

definition translate_button :: "string \<Rightarrow> string" where
  "translate_button tkinter_button_code =
     (case rx_search button_pattern tkinter_button_code of
        None \<Rightarrow> ''# Could not parse tkinter Button call''
      | Some groups \<Rightarrow>
          (let params_str = py_strip (groups ! 0);
               parts = map py_strip (py_split CHR '','' params_str);
               params_str1 = (if parts \<noteq> [] \<and> \<not> contains ''='' (hd parts)
                              then py_join '','' (tl parts) else params_str);
               params = rx_findall param_pattern params_str1;
               (kivy_params, kivy_bindings) = foldl (\<lambda>acc param. translate_param param acc) ([], []) params;
               kivy_code = ''Button('' @ py_join '', '' kivy_params @ '')''
           in if kivy_bindings \<noteq> []
              then kivy_code @ [CHR 0x0A] @ py_join [CHR 0x0A] kivy_bindings
              else kivy_code))"

subsection \<open>What a pattern says, in words\<close>

text \<open>
  \<open>rests r s\<close> is the set of rests that a match of \<open>r\<close> at the start of \<open>s\<close> can leave. The
  next definitions say without the matcher what the patterns describe:
  \<open>occurs_spaced [w1, ..., wn] code\<close> holds when \<open>code\<close> contains the words in this order, each
  two separated by one or more white-space characters; \<open>has_button_call code\<close> holds when
  \<open>code\<close> contains \<^verbatim>\<open>Button\<close>, then any white space, then an opening parenthesis (a \<^verbatim>\<open>tk.\<close>
  in front of it changes nothing). \<open>spaced_rx\<close> is the pattern of such words.
\<close>

definition rests :: "rx \<Rightarrow> string \<Rightarrow> string set" where
  "rests r s = snd ` set (rx_match r s)"

fun starts_spaced :: "string list \<Rightarrow> string \<Rightarrow> bool" where
  "starts_spaced [] t = True"
| "starts_spaced [w] t = (\<exists>u. t = w @ u)"
| "starts_spaced (w # v # ws) t =
     (\<exists>g u. t = w @ g @ u \<and> g \<noteq> [] \<and> list_all py_isspace g \<and> starts_spaced (v # ws) u)"

definition occurs_spaced :: "string list \<Rightarrow> string \<Rightarrow> bool" where
  "occurs_spaced ws code = (\<exists>pre t. code = pre @ t \<and> starts_spaced ws t)"

definition has_button_call :: "string \<Rightarrow> bool" where
  "has_button_call code =
     (\<exists>pre g post. code = pre @ ''Button'' @ g @ ''('' @ post \<and> list_all py_isspace g)"

definition bare_button_open :: rx where
  "bare_button_open = rx_seq [rx_lit ''Button'', spaces0, Lit CHR ''('']"

fun spaced_rx :: "string list \<Rightarrow> rx" where
  "spaced_rx [] = Eps"
| "spaced_rx [w] = Seq (rx_lit w) Eps"
| "spaced_rx (w # v # ws) = Seq (rx_lit w) (Seq spaces1 (spaced_rx (v # ws)))"

text \<open>A store for a concrete run: a window (address 0), a frame in it (1, Kivy layout 10)
  and a button in the frame (2, Kivy button 11).\<close>

definition demo_world :: world where
  "demo_world =
     \<lparr>fake_objs =
        [0 \<mapsto> \<lparr>fw_class = FakeTk, fw_parent = None, fw_widgets = Some [], fw_kivy = None\<rparr>,
         1 \<mapsto> \<lparr>fw_class = FakeFrame, fw_parent = Some 0, fw_widgets = Some [],
               fw_kivy = Some (KivyObj 10)\<rparr>,
         2 \<mapsto> \<lparr>fw_class = FakeButton, fw_parent = Some 1, fw_widgets = None,
               fw_kivy = Some (KivyObj 11)\<rparr>],
      kivy_nodes =
        [10 \<mapsto> \<lparr>kn_children = [], kn_parent = None\<rparr>,
         11 \<mapsto> \<lparr>kn_children = [], kn_parent = None\<rparr>]\<rparr>"

text \<open>An interpreter in which \<^verbatim>\<open>tkinter\<close> has been imported before.\<close>

definition demo_interp :: interp where
  "demo_interp = \<lparr>sys_modules = [''os'' \<mapsto> Foreign 1, ''tkinter'' \<mapsto> Foreign 2],
                  original_modules = Map.empty\<rparr>"



text \<open>A callback environment in which callback 8 registers callback 9 on the variable.\<close>

definition reentrant_call ::
  "nat \<Rightarrow> nat stringvar \<times> nat list \<Rightarrow> (call_outcome \<times> nat stringvar \<times> nat list) option" where
  "reentrant_call c st =
     Some (Returns, if c = 8 then snd (FakeStringVar_trace 9 (fst st)) else fst st, snd st @ [c])"


section \<open>Properties\<close>

subsection \<open>Helper lemmas\<close>










text \<open>A callback that registers another one during the loop: the new callback is called in
  the same \<^verbatim>\<open>set\<close>.\<close>

lemma reentrant_run:
  "FakeStringVar_set reentrant_call Inr ''b'' \<lparr>sv_value = ''a'', sv_callbacks = [8]\<rparr> []
     = Some (None, \<lparr>sv_value = ''b'', sv_callbacks = [8, 9]\<rparr>, [8, 9], [8, 9])"
  by code_simp









lemma digit_limit_rejects:
  assumes "0 < max_digits" "max_digits < length ds" "\<forall>c \<in> set ds. c \<in> set ''0123456789''"
  shows "limited_digits max_digits 10 ds = None"
proof -
  have "filter (\<lambda>c. c \<noteq> CHR ''_'') ds = ds"
    using assms(3) by (induction ds) auto
  then show ?thesis
    using assms(1,2) by (simp add: limited_digits_def digit_count_def binary_base_def)
qed













text \<open>Hexadecimal colours: two hexadecimal digits are read as their number, six of them
  give the colour in all three widgets; a sign next to a digit is read too.\<close>

lemma hex_digit_facts:
  assumes "is_hex_digit c"
  shows "\<exists>d. digit_val 16 c = Some d" and "\<not> int_isspace c" and "c \<noteq> CHR ''-''" and "c \<noteq> CHR ''+''"
    and "c \<noteq> CHR ''_''" and "c \<noteq> CHR ''x''" and "c \<noteq> CHR ''X''"
  using assms by (auto simp: is_hex_digit_def digit_val_def int_isspace_def)

lemma limited_digits_binary: "limited_digits max_digits 16 ds = py_digits 16 0 ds"
  by (simp add: limited_digits_def binary_base_def)

lemma py_int_str_hex_pair:
  assumes "is_hex_digit a" "is_hex_digit b"
  shows "py_int_str max_digits 16 [a, b] = Some (hex_pair a b)"
proof -
  obtain da where da: "digit_val 16 a = Some da" using hex_digit_facts(1) [OF assms(1)] by blast
  obtain db where db: "digit_val 16 b = Some db" using hex_digit_facts(1) [OF assms(2)] by blast
  have strip: "strip_with int_isspace [a, b] = [a, b]"
    using hex_digit_facts(2) [OF assms(1)] hex_digit_facts(2) [OF assms(2)]
    by (simp add: strip_with_def)
  have pre: "strip_base_prefix 16 [a, b] = [a, b]"
    using hex_digit_facts(6,7) [OF assms(2)] by (simp add: strip_base_prefix_def)
  have dig: "py_digits 16 0 [a, b] = Some (16 * da + db)"
    using da db hex_digit_facts(5) [OF assms(2)] by simp
  show ?thesis
    using strip pre dig da db hex_digit_facts(3,4) [OF assms(1)]
    by (simp add: py_int_str_def hex_pair_def limited_digits_binary)
qed

lemma hex_color_six_digits:
  assumes "list_all is_hex_digit [a, b, c, d, e, f]"
  shows "hex_color dflt (CHR ''#'' # [a, b, c, d, e, f])
       = (of_int (hex_pair a b) / 255, of_int (hex_pair c d) / 255, of_int (hex_pair e f) / 255, 1)"
  using assms by (simp add: hex_color_def py_int_str_hex_pair)

lemma hex_color_wrong_length:
  assumes "length rest \<noteq> 6"
  shows "hex_color dflt (CHR ''#'' # rest) = dflt"
  using assms by (simp add: hex_color_def)

lemma bg_argument_present:
  assumes "bg_argument kw = PyStr s"
  shows "kw ''bg'' \<noteq> None \<or> kw ''background'' \<noteq> None"
  using assms by (auto simp: bg_argument_def split: option.splits)

lemma hash_color_dispatch:
  assumes "bg_argument kw = PyStr (CHR ''#'' # rest)"
  shows "FakeButton_background_color True kw = Some (hex_color light_gray (CHR ''#'' # rest))"
    and "FakeFrame_bg_color True kw = Some (hex_color light_gray (CHR ''#'' # rest))"
    and "FakeCanvas_bg_color True kw = Some (hex_color white (CHR ''#'' # rest))"
  using assms bg_argument_present [OF assms]
  by (auto simp: FakeButton_background_color_def FakeFrame_bg_color_def FakeCanvas_bg_color_def
      startswith_hash_def str_of_def)

lemma hex_six_digits_all_widgets:
  assumes "bg_argument kw = PyStr (CHR ''#'' # [a, b, c, d, e, f])"
    and "list_all is_hex_digit [a, b, c, d, e, f]"
  shows "FakeButton_background_color True kw
           = Some (of_int (hex_pair a b) / 255, of_int (hex_pair c d) / 255, of_int (hex_pair e f) / 255, 1)"
    and "FakeFrame_bg_color True kw
           = Some (of_int (hex_pair a b) / 255, of_int (hex_pair c d) / 255, of_int (hex_pair e f) / 255, 1)"
    and "FakeCanvas_bg_color True kw
           = Some (of_int (hex_pair a b) / 255, of_int (hex_pair c d) / 255, of_int (hex_pair e f) / 255, 1)"
  using hash_color_dispatch [OF assms(1)] hex_color_six_digits [OF assms(2)] by simp_all

lemma hex_signed_pairs:
  "hex_color dflt ''#+1+2+3'' = (1 / 255, 2 / 255, 3 / 255, 1)"
  "hex_color dflt ''#-1-2-3'' = (- 1 / 255, - 2 / 255, - 3 / 255, 1)"
  by (simp_all add: hex_color_def py_int_str_def strip_with_def int_isspace_def digit_val_def
      strip_base_prefix_def limited_digits_binary)

lemma demo_pairs:
  "hex_pair CHR ''f'' CHR ''f'' = 255" "hex_pair CHR ''8'' CHR ''0'' = 128"
  "hex_pair CHR ''0'' CHR ''0'' = 0"
  by (simp_all add: hex_pair_def digit_val_def)

lemma fake_tkinter_classes:
  "list_all (\<lambda>(a, c). py_getattr fake_tkinter a = Some (Class c)) tkinter_class_attributes"
  by (simp add: tkinter_class_attributes_def fake_tkinter_def py_getattr_def)

lemma fake_tkinter_submodules:
  "py_getattr fake_tkinter ''font'' = Some fake_font_module"
  "py_getattr fake_tkinter ''ttk'' = Some fake_ttk_module"
  "py_getattr fake_tkinter ''messagebox'' = Some fake_messagebox_module"
  by (simp_all add: fake_tkinter_def py_getattr_def)

lemma auto_translate_mode_sys_modules:
  "sys_modules (snd (auto_translate_mode st)) =
     (sys_modules st)(''tkinter'' \<mapsto> fake_tkinter, ''tkinter.font'' \<mapsto> fake_font_module,
        ''tkinter.ttk'' \<mapsto> fake_ttk_module, ''tkinter.messagebox'' \<mapsto> fake_messagebox_module)"
  by (simp add: auto_translate_mode_def Let_def split: option.splits)

lemma auto_translate_mode_original:
  "original_modules (snd (auto_translate_mode st)) =
     (case sys_modules st ''tkinter'' of
        Some m \<Rightarrow> (original_modules st)(''tkinter'' \<mapsto> m)
      | None \<Rightarrow> original_modules st)"
  by (simp add: auto_translate_mode_def Let_def split: option.splits)

lemma disable_sys_modules:
  "sys_modules (disable_auto_translate st) k =
     (if k = ''tkinter'' then original_modules st ''tkinter''
      else if k = ''tkinter.font'' \<or> k = ''tkinter.ttk'' \<or> k = ''tkinter.messagebox'' then None
      else sys_modules st k)"
  by (auto simp: disable_auto_translate_def del_if_present_def Let_def split: option.splits)

lemma disable_original:
  "original_modules (disable_auto_translate st) = original_modules st"
  by (simp add: disable_auto_translate_def Let_def)

text \<open>A run of the store model: the button of the demo store, put into its frame.\<close>

lemma demo_button_grid:
  "fw_widgets (the (fake_objs (FakeButton_grid Map.empty 2 demo_world) 1)) = Some [KivyObj 11]
   \<and> kivy_nodes (FakeButton_grid Map.empty 2 demo_world) 10
       = Some \<lparr>kn_children = [11], kn_parent = None\<rparr>
   \<and> kivy_nodes (FakeButton_grid Map.empty 2 demo_world) 11
       = Some \<lparr>kn_children = [], kn_parent = Some 10\<rparr>"
  by (simp add: FakeButton_grid_def FakeButton_pack_def pack_append_and_layout_def demo_world_def
      parent_with_widgets_def append_to_parent_def FakeFrame_add_child_to_layout_def
      kivy_children_def kivy_add_widget_def)

text \<open>The matcher and the patterns: what a match leaves, and when a search succeeds.\<close>

lemma rests_Eps: "rests Eps s = {s}"
  by (simp add: rests_def)

lemma rests_Lit: "rests (Lit c) s = {t. s = c # t}"
proof (cases s)
  case Nil
  then show ?thesis by (simp add: rests_def)
next
  case (Cons x xs)
  then show ?thesis by (auto simp: rests_def)
qed

lemma rests_Cls: "rests (Cls p) s = {t. \<exists>c. s = c # t \<and> p c}"
proof (cases s)
  case Nil
  then show ?thesis by (simp add: rests_def)
next
  case (Cons x xs)
  then show ?thesis by (auto simp: rests_def)
qed

lemma snd_image_map_groups:
  "snd ` set (map (\<lambda>(g2, u). (g1 @ g2, u)) xs) = snd ` set xs"
  by (induction xs) (simp_all add: split_def)

lemma rests_concat:
  "snd ` set (concat (map (\<lambda>(g1, t). map (\<lambda>(g2, u). (g1 @ g2, u)) (f t)) xs))
     = (\<Union>t \<in> snd ` set xs. snd ` set (f t))"
proof (induction xs)
  case Nil
  then show ?case by simp
next
  case (Cons x xs)
  obtain g1 t where x: "x = (g1, t)" by (cases x)
  show ?case
    unfolding x using Cons snd_image_map_groups [of g1 "f t"]
    by (simp add: image_Un)
qed

lemma rests_Seq: "rests (Seq a b) s = (\<Union>t \<in> rests a s. rests b t)"
  unfolding rests_def rx_match.simps by (rule rests_concat)

lemma rests_Opt: "rests (Opt a) s = rests a s \<union> {s}"
  by (simp add: rests_def image_Un)

lemma star_greedy_rests:
  "snd ` set (star_greedy p s) = {t. \<exists>g. s = g @ t \<and> list_all p g}"
proof (induction s)
  case Nil
  then show ?case by auto
next
  case (Cons c cs)
  show ?case
  proof (cases "p c")
    case True
    have "{t. \<exists>g. c # cs = g @ t \<and> list_all p g}
        = insert (c # cs) {t. \<exists>g. cs = g @ t \<and> list_all p g}"
    proof (intro set_eqI iffI)
      fix t assume "t \<in> {t. \<exists>g. c # cs = g @ t \<and> list_all p g}"
      then obtain g where g: "c # cs = g @ t" "list_all p g" by blast
      show "t \<in> insert (c # cs) {t. \<exists>g. cs = g @ t \<and> list_all p g}"
      proof (cases g)
        case Nil
        then show ?thesis using g by simp
      next
        case (Cons x xs)
        then have "cs = xs @ t" "list_all p xs" using g by auto
        then show ?thesis by blast
      qed
    next
      fix t assume "t \<in> insert (c # cs) {t. \<exists>g. cs = g @ t \<and> list_all p g}"
      then consider "t = c # cs" | g where "cs = g @ t" "list_all p g" by blast
      then show "t \<in> {t. \<exists>g. c # cs = g @ t \<and> list_all p g}"
      proof cases
        case 1
        then have "c # cs = [] @ t \<and> list_all p []" by simp
        then show ?thesis by blast
      next
        case 2
        then have "c # cs = (c # g) @ t \<and> list_all p (c # g)" using True by simp
        then show ?thesis by blast
      qed
    qed
    then show ?thesis using True Cons by (simp add: image_Un)
  next
    case False
    have "{t. \<exists>g. c # cs = g @ t \<and> list_all p g} = {c # cs}"
    proof (intro set_eqI iffI)
      fix t assume "t \<in> {t. \<exists>g. c # cs = g @ t \<and> list_all p g}"
      then obtain g where g: "c # cs = g @ t" "list_all p g" by blast
      then have "g = []" using False by (cases g) auto
      then show "t \<in> {c # cs}" using g by simp
    next
      fix t assume "t \<in> {c # cs}"
      then have "c # cs = [] @ t \<and> list_all p []" by simp
      then show "t \<in> {t. \<exists>g. c # cs = g @ t \<and> list_all p g}" by blast
    qed
    then show ?thesis using False by simp
  qed
qed

lemma rests_Star: "rests (Star p) s = {t. \<exists>g. s = g @ t \<and> list_all p g}"
  by (simp add: rests_def star_greedy_rests)

lemma rests_rx_lit: "rests (rx_lit w) s = {t. s = w @ t}"
  by (induction w arbitrary: s) (auto simp: rx_lit_def rests_Eps rests_Seq rests_Lit)

lemma rests_spaces0: "rests spaces0 s = {t. \<exists>g. s = g @ t \<and> list_all py_isspace g}"
  by (simp add: spaces0_def rests_Star)

lemma rests_spaces1: "rests spaces1 s = {t. \<exists>g. s = g @ t \<and> g \<noteq> [] \<and> list_all py_isspace g}"
proof (intro set_eqI iffI)
  fix t assume "t \<in> rests spaces1 s"
  then obtain c u g where "s = c # u" "py_isspace c" "u = g @ t" "list_all py_isspace g"
    by (auto simp: spaces1_def rests_Seq rests_Cls rests_Star)
  then have "s = (c # g) @ t \<and> c # g \<noteq> [] \<and> list_all py_isspace (c # g)" by simp
  then show "t \<in> {t. \<exists>g. s = g @ t \<and> g \<noteq> [] \<and> list_all py_isspace g}" by blast
next
  fix t assume "t \<in> {t. \<exists>g. s = g @ t \<and> g \<noteq> [] \<and> list_all py_isspace g}"
  then obtain g where g: "s = g @ t" "g \<noteq> []" "list_all py_isspace g" by blast
  then obtain c g' where "g = c # g'" by (cases g) auto
  then show "t \<in> rests spaces1 s"
    using g by (auto simp: spaces1_def rests_Seq rests_Cls rests_Star)
qed

lemma rx_search_iff: "rx_search r s \<noteq> None \<longleftrightarrow> (\<exists>pre t. s = pre @ t \<and> rests r t \<noteq> {})"
proof (induction s)
  case Nil
  then show ?case by (auto simp: rests_def split: list.splits)
next
  case (Cons c cs)
  show ?case
  proof (cases "rx_match r (c # cs)")
    case Nil
    have "(\<exists>pre t. c # cs = pre @ t \<and> rests r t \<noteq> {}) \<longleftrightarrow> (\<exists>pre t. cs = pre @ t \<and> rests r t \<noteq> {})"
    proof
      assume "\<exists>pre t. c # cs = pre @ t \<and> rests r t \<noteq> {}"
      then obtain pre t where pt: "c # cs = pre @ t" "rests r t \<noteq> {}" by blast
      show "\<exists>pre t. cs = pre @ t \<and> rests r t \<noteq> {}"
      proof (cases pre)
        case Nil
        then show ?thesis using pt \<open>rx_match r (c # cs) = []\<close> by (simp add: rests_def)
      next
        case (Cons x xs)
        then have "cs = xs @ t" using pt by simp
        then show ?thesis using pt by blast
      qed
    next
      assume "\<exists>pre t. cs = pre @ t \<and> rests r t \<noteq> {}"
      then obtain pre t where "cs = pre @ t" "rests r t \<noteq> {}" by blast
      then have "c # cs = (c # pre) @ t \<and> rests r t \<noteq> {}" by simp
      then show "\<exists>pre t. c # cs = pre @ t \<and> rests r t \<noteq> {}" by blast
    qed
    then show ?thesis using Nil Cons by simp
  next
    case (Cons m ms)
    then have "c # cs = [] @ (c # cs) \<and> rests r (c # cs) \<noteq> {}" by (simp add: rests_def)
    then have "\<exists>pre t. c # cs = pre @ t \<and> rests r t \<noteq> {}" by blast
    then show ?thesis using Cons by simp
  qed
qed

lemma rests_spaced_rx: "rests (spaced_rx ws) t \<noteq> {} \<longleftrightarrow> starts_spaced ws t"
proof (induction ws arbitrary: t rule: spaced_rx.induct)
  case 1
  then show ?case by (simp add: rests_Eps)
next
  case (2 w)
  then show ?case by (auto simp: rests_Seq rests_rx_lit rests_Eps)
next
  case (3 w v ws)
  have "rests (spaced_rx (w # v # ws)) t \<noteq> {}
      \<longleftrightarrow> (\<exists>g u. t = w @ g @ u \<and> g \<noteq> [] \<and> list_all py_isspace g \<and> rests (spaced_rx (v # ws)) u \<noteq> {})"
    by (auto simp: rests_Seq rests_rx_lit rests_spaces1)
  then show ?case using 3 by simp
qed

lemma patterns_spaced:
  "import_as_pattern = spaced_rx [''import'', ''tkinter'', ''as'', ''tk'']"
  "from_import_pattern = spaced_rx [''from'', ''tkinter'', ''import'']"
  "import_pattern = spaced_rx [''import'', ''tkinter'']"
  by (simp_all add: import_as_pattern_def from_import_pattern_def import_pattern_def rx_seq_def)

lemma search_spaced: "rx_search (spaced_rx ws) code \<noteq> None \<longleftrightarrow> occurs_spaced ws code"
  unfolding occurs_spaced_def rests_spaced_rx [symmetric] by (rule rx_search_iff)

lemma py_join_block:
  "py_join [CHR 0x0A]
     [''from kivy.app import App'',
      ''from kivy.uix.boxlayout import BoxLayout'',
      ''from kivy.uix.button import Button'',
      ''from kivy.uix.label import Label''] = kivy_import_block"
  by (simp add: kivy_import_block_def)

lemma rests_word_spaces_char:
  "rests (Seq (rx_lit w) (Seq spaces0 (Seq (Lit c) Eps))) t \<noteq> {}
     \<longleftrightarrow> (\<exists>g post. t = w @ g @ [c] @ post \<and> list_all py_isspace g)"
proof
  assume "rests (Seq (rx_lit w) (Seq spaces0 (Seq (Lit c) Eps))) t \<noteq> {}"
  then obtain u where "u \<in> rests (Seq (rx_lit w) (Seq spaces0 (Seq (Lit c) Eps))) t" by blast
  then obtain t1 where t1: "t = w @ t1" and u1: "u \<in> rests (Seq spaces0 (Seq (Lit c) Eps)) t1"
    unfolding rests_Seq [of "rx_lit w"] rests_rx_lit by blast
  from u1 obtain g t2 where t2: "t1 = g @ t2" "list_all py_isspace g"
    and u2: "u \<in> rests (Seq (Lit c) Eps) t2"
    unfolding rests_Seq [of spaces0] rests_spaces0 by blast
  from u2 obtain t3 where t3: "t2 = c # t3"
    unfolding rests_Seq [of "Lit c"] rests_Lit by blast
  have "t = w @ g @ [c] @ t3 \<and> list_all py_isspace g"
    using t1 t2 t3 by simp
  then show "\<exists>g post. t = w @ g @ [c] @ post \<and> list_all py_isspace g" by blast
next
  assume "\<exists>g post. t = w @ g @ [c] @ post \<and> list_all py_isspace g"
  then obtain g post where t: "t = w @ g @ [c] @ post" and g: "list_all py_isspace g" by blast
  have a: "post \<in> rests (Seq (Lit c) Eps) (c # post)"
    unfolding rests_Seq [of "Lit c"] rests_Lit rests_Eps by simp
  have b: "c # post \<in> rests spaces0 (g @ c # post)"
    unfolding rests_spaces0 using g by blast
  have c: "post \<in> rests (Seq spaces0 (Seq (Lit c) Eps)) (g @ c # post)"
    unfolding rests_Seq [of spaces0] using a b by blast
  have d: "g @ c # post \<in> rests (rx_lit w) t"
    unfolding rests_rx_lit using t by simp
  have "post \<in> rests (Seq (rx_lit w) (Seq spaces0 (Seq (Lit c) Eps))) t"
    unfolding rests_Seq [of "rx_lit w"] using c d by blast
  then show "rests (Seq (rx_lit w) (Seq spaces0 (Seq (Lit c) Eps))) t \<noteq> {}" by blast
qed

lemma bare_button_open_unfold:
  "bare_button_open = Seq (rx_lit ''Button'') (Seq spaces0 (Seq (Lit CHR ''('') Eps))"
  by (simp add: bare_button_open_def rx_seq_def)

lemma button_open_pattern_unfold:
  "button_open_pattern = Seq (Opt (rx_lit ''tk.'')) bare_button_open"
  by (simp add: button_open_pattern_def bare_button_open_def rx_seq_def)

lemma rests_bare_button_open:
  "rests bare_button_open t \<noteq> {}
     \<longleftrightarrow> (\<exists>g post. t = ''Button'' @ g @ ''('' @ post \<and> list_all py_isspace g)"
  unfolding bare_button_open_unfold by (rule rests_word_spaces_char)

lemma has_button_call_search: "has_button_call code \<longleftrightarrow> rx_search bare_button_open code \<noteq> None"
  unfolding rx_search_iff rests_bare_button_open has_button_call_def by blast

lemma rests_button_open:
  assumes "rests button_open_pattern t \<noteq> {}"
  shows "\<exists>pre g post. t = pre @ ''Button'' @ g @ ''('' @ post \<and> list_all py_isspace g"
proof -
  from assms obtain u where "u \<in> rests (Seq (Opt (rx_lit ''tk.'')) bare_button_open) t"
    unfolding button_open_pattern_unfold by blast
  then obtain t1 where t1: "t1 \<in> rests (Opt (rx_lit ''tk.'')) t" and u: "u \<in> rests bare_button_open t1"
    unfolding rests_Seq [of "Opt (rx_lit ''tk.'')"] by blast
  from u have "rests bare_button_open t1 \<noteq> {}" by blast
  then obtain g post where gp: "t1 = ''Button'' @ g @ ''('' @ post" "list_all py_isspace g"
    unfolding rests_bare_button_open by blast
  from t1 have "t = ''tk.'' @ t1 \<or> t = t1"
    unfolding rests_Opt rests_rx_lit by blast
  then show ?thesis
  proof
    assume "t = ''tk.'' @ t1"
    then have "t = ''tk.'' @ ''Button'' @ g @ ''('' @ post \<and> list_all py_isspace g"
      using gp by simp
    then show ?thesis by (rule_tac x = "''tk.''" in exI) blast
  next
    assume "t = t1"
    then have "t = [] @ ''Button'' @ g @ ''('' @ post \<and> list_all py_isspace g"
      using gp by simp
    then show ?thesis by (rule_tac x = "[]" in exI) blast
  qed
qed

lemma button_pattern_found:
  assumes "rx_search button_pattern code \<noteq> None"
  shows "has_button_call code"
proof -
  from assms obtain pre t where pt: "code = pre @ t" "rests button_pattern t \<noteq> {}"
    unfolding rx_search_iff by blast
  from pt(2) obtain u where "u \<in> rests button_pattern t" by blast
  then obtain t1 where "t1 \<in> rests button_open_pattern t"
    unfolding button_pattern_def rests_Seq [of button_open_pattern] by blast
  then have "rests button_open_pattern t \<noteq> {}" by blast
  from rests_button_open [OF this] obtain pre' g post
    where t: "t = pre' @ ''Button'' @ g @ ''('' @ post" and g: "list_all py_isspace g" by blast
  have "code = (pre @ pre') @ ''Button'' @ g @ ''('' @ post"
    unfolding pt(1) t by simp
  then show ?thesis unfolding has_button_call_def using g by blast
qed

lemma demo_imports_1: "translate_imports ''import  tkinter'' = kivy_import_block"
  by code_simp

lemma demo_imports_2: "translate_imports ''importtkinter'' = []"
  by code_simp

lemma demo_no_button_search: "rx_search bare_button_open ''tk.Label(root, text=1)'' = None"
  by code_simp

lemma demo_no_button: "\<not> has_button_call ''tk.Label(root, text=1)''"
  unfolding has_button_call_search demo_no_button_search by simp

text \<open>Two runs of \<^verbatim>\<open>translate_button\<close> on calls that the pattern finds.\<close>

lemma demo_translate_button:
  "translate_button ''tk.Button(root, text=1, command=go, width=10, relief=RAISED, state=tk.DISABLED, zap=3)''
     = ''Button(text=1, size_hint_x=None, width=10, disabled=True, # zap=3  # No direct Kivy equivalent)''
       @ [CHR 0x0A] @ ''button.bind(on_press=go)''"
  by code_simp

lemma demo_translate_button_spaced: "translate_button ''Button (x)'' = ''Button()''"
  by code_simp

text \<open>The job map: \<^verbatim>\<open>after\<close> returns \<^verbatim>\<open>after_job_N\<close> and records the thread under it;
  \<^verbatim>\<open>after_cancel\<close> removes the entry, or changes nothing when there is none, and leaves the
  started threads as they are.\<close>

lemma after_records_job:
  assumes "FakeTk_after n delay func st = (job_id, st')"
  shows "job_id = ''after_job_'' @ digits10 n"
    and "\<exists>m. after_jobs st' = Some m \<and> m job_id = Some (length (started_threads st))"
    and "started_threads st' = started_threads st @ [(length (started_threads st), delay, func)]"
  using assms by (auto simp: FakeTk_after_def Let_def)

lemma after_cancel_only_untracks:
  "started_threads (FakeTk_after_cancel job_id st) = started_threads st"
  "after_jobs st = Some m \<Longrightarrow> after_jobs (FakeTk_after_cancel job_id st) = Some (m(job_id := None))"
  "after_jobs st = None \<Longrightarrow> FakeTk_after_cancel job_id st = st"
  "after_jobs st = Some m \<Longrightarrow> m job_id = None \<Longrightarrow> FakeTk_after_cancel job_id st = st"
  by (auto simp: FakeTk_after_cancel_def split: option.splits)

lemma digits10_four: "1000 \<le> n \<Longrightarrow> n \<le> 9999 \<Longrightarrow> length (digits10 n) = 4"
proof -
  assume a: "1000 \<le> n" "n \<le> 9999"
  have 1: "\<not> n < 10" "\<not> n div 10 < 10" "\<not> n div 10 div 10 < 10" "n div 10 div 10 div 10 < 10"
    using a by auto
  show ?thesis
    by (subst digits10.simps, simp only: 1 if_False, subst digits10.simps, simp only: 1 if_False,
        subst digits10.simps, simp only: 1 if_False, subst digits10.simps, simp only: 1 if_True)
       simp
qed

lemma digits10_demo: "digits10 1234 = ''1234''"
  by code_simp

lemma demo_hex_color:
  "FakeButton_background_color True [''bg'' \<mapsto> PyStr ''#ff8000''] = Some (1, 128 / 255, 0, 1)"
  "FakeFrame_bg_color True [''bg'' \<mapsto> PyStr ''#ff8000''] = Some (1, 128 / 255, 0, 1)"
  "FakeCanvas_bg_color True [''bg'' \<mapsto> PyStr ''#ff8000''] = Some (1, 128 / 255, 0, 1)"
  "FakeButton_background_color True [''background'' \<mapsto> PyStr ''#12345''] = Some light_gray"
  "FakeCanvas_bg_color True [''background'' \<mapsto> PyStr ''#12345''] = Some white"
proof -
  have arg: "bg_argument [''bg'' \<mapsto> PyStr ''#ff8000''] = PyStr (CHR ''#'' # ''ff8000'')"
    by (simp add: bg_argument_def)
  have hex: "list_all is_hex_digit ''ff8000''"
    by (simp add: is_hex_digit_def)
  have arg2: "bg_argument [''background'' \<mapsto> PyStr ''#12345''] = PyStr (CHR ''#'' # ''12345'')"
    by (simp add: bg_argument_def)
  show "FakeButton_background_color True [''bg'' \<mapsto> PyStr ''#ff8000''] = Some (1, 128 / 255, 0, 1)"
    using hex_six_digits_all_widgets(1) [OF arg hex] by (simp add: demo_pairs)
  show "FakeFrame_bg_color True [''bg'' \<mapsto> PyStr ''#ff8000''] = Some (1, 128 / 255, 0, 1)"
    using hex_six_digits_all_widgets(2) [OF arg hex] by (simp add: demo_pairs)
  show "FakeCanvas_bg_color True [''bg'' \<mapsto> PyStr ''#ff8000''] = Some (1, 128 / 255, 0, 1)"
    using hex_six_digits_all_widgets(3) [OF arg hex] by (simp add: demo_pairs)
  show "FakeButton_background_color True [''background'' \<mapsto> PyStr ''#12345''] = Some light_gray"
    using hash_color_dispatch(1) [OF arg2] by (simp add: hex_color_wrong_length)
  show "FakeCanvas_bg_color True [''background'' \<mapsto> PyStr ''#12345''] = Some white"
    using hash_color_dispatch(3) [OF arg2] by (simp add: hex_color_wrong_length)
qed

subsection \<open>C1: \<^verbatim>\<open>FakeStringVar.set\<close> notifies on change only\<close>




subsection \<open>C6: \<^verbatim>\<open>wm_state\<close> set and read back\<close>

text \<open>
  C6 says that for every state \<open>s\<close> among \<^verbatim>\<open>'withdrawn'\<close>, \<^verbatim>\<open>'iconic'\<close>, \<^verbatim>\<open>'normal'\<close>,
  \<^verbatim>\<open>wm_state(s)\<close> returns \<open>s\<close> and a following \<^verbatim>\<open>wm_state()\<close> returns \<open>s\<close> too, after any
  sequence of window operations. The code does not do this: after \<^verbatim>\<open>withdraw()\<close>,
  \<^verbatim>\<open>wm_state('iconic')\<close> returns \<^verbatim>\<open>'iconic'\<close> but \<^verbatim>\<open>wm_state()\<close> returns \<^verbatim>\<open>'withdrawn'\<close>, since
  \<^verbatim>\<open>iconify\<close> leaves \<^verbatim>\<open>_withdrawn\<close> set; and after \<^verbatim>\<open>iconify()\<close>, \<^verbatim>\<open>wm_state('normal')\<close> returns
  \<^verbatim>\<open>'normal'\<close> but \<^verbatim>\<open>wm_state()\<close> returns \<^verbatim>\<open>'iconic'\<close>, since \<^verbatim>\<open>deiconify\<close> never clears
  \<^verbatim>\<open>_iconified\<close>.
\<close>

theorem wm_state_read_back_fails:
  "wm_state_set_then_get ''iconic'' (tk_run [Withdraw]) = (PyStr ''iconic'', PyStr ''withdrawn'')
   \<and> wm_state_set_then_get ''normal'' (tk_run [Iconify]) = (PyStr ''normal'', PyStr ''iconic'')"
  by (simp add: wm_state_set_then_get_def tk_run_def wm_state_def FakeTk_init_def
      withdraw_def iconify_def deiconify_def getattr_default_def)

subsection \<open>C9: \<^verbatim>\<open>FakeEntry.insert\<close> followed by \<^verbatim>\<open>get\<close>\<close>




subsection \<open>C10: \<^verbatim>\<open>FakeIntVar\<close> and \<^verbatim>\<open>FakeDoubleVar\<close> on every input\<close>




subsection \<open>C4: background colours written as \<^verbatim>\<open>#RRGGBB\<close>\<close>

text \<open>
  C4: a background \<^verbatim>\<open>#\<close> followed by six hexadecimal digits gives the colour
  \<^verbatim>\<open>(R/255, G/255, B/255, 1)\<close>, as the claim says. For a \<^verbatim>\<open>#\<close>-prefixed string whose remainder
  is not six hexadecimal digits the parsing is to give the widget's default, and the code
  attempts this with the test
  \<^verbatim>\<open>len(hex_color) == 6\<close> and a \<^verbatim>\<open>try\<close> around three calls of \<^verbatim>\<open>int(..., 16)\<close>. It misses
  that \<^verbatim>\<open>int\<close> accepts a sign (or white space) next to a single digit: with Kivy importable,
  the background \<^verbatim>\<open>'#+1+2+3'\<close> gives button, frame and canvas the colour
  \<^verbatim>\<open>(1/255, 2/255, 3/255, 1)\<close> and \<^verbatim>\<open>'#-1-2-3'\<close> gives a colour with the negative components
  \<^verbatim>\<open>(-1/255, -2/255, -3/255, 1)\<close>, neither of them the default
  (\<^verbatim>\<open>(0.9, 0.9, 0.9, 1)\<close> for button and frame, \<^verbatim>\<open>(1, 1, 1, 1)\<close> for the canvas).
\<close>

theorem hex_background_color_signed_pairs:
  "length ''+1+2+3'' = 6 \<and> \<not> list_all is_hex_digit ''+1+2+3''
   \<and> FakeButton_background_color True [''bg'' \<mapsto> PyStr ''#+1+2+3''] = Some (1 / 255, 2 / 255, 3 / 255, 1)
   \<and> FakeFrame_bg_color True [''bg'' \<mapsto> PyStr ''#+1+2+3''] = Some (1 / 255, 2 / 255, 3 / 255, 1)
   \<and> FakeCanvas_bg_color True [''bg'' \<mapsto> PyStr ''#+1+2+3''] = Some (1 / 255, 2 / 255, 3 / 255, 1)
   \<and> FakeButton_background_color True [''bg'' \<mapsto> PyStr ''#-1-2-3'']
       = Some (- 1 / 255, - 2 / 255, - 3 / 255, 1)
   \<and> FakeFrame_bg_color True [''bg'' \<mapsto> PyStr ''#-1-2-3'']
       = Some (- 1 / 255, - 2 / 255, - 3 / 255, 1)
   \<and> FakeCanvas_bg_color True [''bg'' \<mapsto> PyStr ''#-1-2-3'']
       = Some (- 1 / 255, - 2 / 255, - 3 / 255, 1)
   \<and> (1 / 255, 2 / 255, 3 / 255, 1) \<noteq> light_gray \<and> (1 / 255, 2 / 255, 3 / 255, 1) \<noteq> white
   \<and> (- 1 / 255, - 2 / 255, - 3 / 255, 1) \<noteq> light_gray
   \<and> (- 1 / 255, - 2 / 255, - 3 / 255, 1) \<noteq> white"
proof -
  have p: "bg_argument [''bg'' \<mapsto> PyStr ''#+1+2+3''] = PyStr (CHR ''#'' # ''+1+2+3'')"
    by (simp add: bg_argument_def)
  have m: "bg_argument [''bg'' \<mapsto> PyStr ''#-1-2-3''] = PyStr (CHR ''#'' # ''-1-2-3'')"
    by (simp add: bg_argument_def)
  show ?thesis
    using hash_color_dispatch [OF p] hash_color_dispatch [OF m] hex_signed_pairs
    by (simp add: is_hex_digit_def light_gray_def white_def)
qed

theorem hex_background_color_signed_pairs_witness:
  "[''bg'' \<mapsto> PyStr ''#+1+2+3''] ''bg'' = Some (PyStr ''#+1+2+3'')
   \<and> FakeButton_background_color True [''bg'' \<mapsto> PyStr ''#+1+2+3''] \<noteq> Some light_gray
   \<and> FakeFrame_bg_color True [''bg'' \<mapsto> PyStr ''#+1+2+3''] \<noteq> Some light_gray
   \<and> FakeCanvas_bg_color True [''bg'' \<mapsto> PyStr ''#+1+2+3''] \<noteq> Some white
   \<and> FakeButton_background_color True [''bg'' \<mapsto> PyStr ''#-1-2-3''] \<noteq> Some light_gray
   \<and> FakeFrame_bg_color True [''bg'' \<mapsto> PyStr ''#-1-2-3''] \<noteq> Some light_gray
   \<and> FakeCanvas_bg_color True [''bg'' \<mapsto> PyStr ''#-1-2-3''] \<noteq> Some white"
  using hex_background_color_signed_pairs by simp

subsection \<open>C2: installing and removing the fake modules\<close>

text \<open>
  C2: \<^verbatim>\<open>auto_translate_mode()\<close> puts the fake modules at \<^verbatim>\<open>sys.modules['tkinter']\<close>,
  \<^verbatim>\<open>['tkinter.font']\<close>, \<^verbatim>\<open>['tkinter.ttk']\<close> and \<^verbatim>\<open>['tkinter.messagebox']\<close>; the attributes \<^verbatim>\<open>Tk\<close>,
  \<^verbatim>\<open>Button\<close>, \<^verbatim>\<open>Label\<close>, ... of the fake \<^verbatim>\<open>tkinter\<close> are the fake classes; a \<^verbatim>\<open>tkinter\<close> module
  that was in \<^verbatim>\<open>sys.modules\<close> is saved in \<^verbatim>\<open>_original_modules\<close>. A following
  \<^verbatim>\<open>disable_auto_translate()\<close> puts the saved module back at \<^verbatim>\<open>sys.modules['tkinter']\<close>, removes
  the key when none is saved, and removes the three submodule keys; no other key of
  \<^verbatim>\<open>sys.modules\<close> changes.
\<close>

theorem auto_translate_then_disable:
  assumes "auto_translate_mode st = (m, st1)"
  shows "m = fake_tkinter
       \<and> sys_modules st1 ''tkinter'' = Some fake_tkinter
       \<and> sys_modules st1 ''tkinter.font'' = Some fake_font_module
       \<and> sys_modules st1 ''tkinter.ttk'' = Some fake_ttk_module
       \<and> sys_modules st1 ''tkinter.messagebox'' = Some fake_messagebox_module
       \<and> list_all (\<lambda>(a, c). py_getattr fake_tkinter a = Some (Class c)) tkinter_class_attributes
       \<and> py_getattr fake_tkinter ''font'' = Some fake_font_module
       \<and> py_getattr fake_tkinter ''ttk'' = Some fake_ttk_module
       \<and> py_getattr fake_tkinter ''messagebox'' = Some fake_messagebox_module
       \<and> (\<forall>t. sys_modules st ''tkinter'' = Some t \<longrightarrow>
              original_modules st1 ''tkinter'' = Some t
              \<and> sys_modules (disable_auto_translate st1) ''tkinter'' = Some t)
       \<and> (sys_modules st ''tkinter'' = None \<longrightarrow>
              original_modules st1 = original_modules st
              \<and> sys_modules (disable_auto_translate st1) ''tkinter'' = original_modules st ''tkinter'')
       \<and> (sys_modules st ''tkinter'' = None \<and> original_modules st ''tkinter'' = None \<longrightarrow>
              sys_modules (disable_auto_translate st1) ''tkinter'' = None)
       \<and> sys_modules (disable_auto_translate st1) ''tkinter.font'' = None
       \<and> sys_modules (disable_auto_translate st1) ''tkinter.ttk'' = None
       \<and> sys_modules (disable_auto_translate st1) ''tkinter.messagebox'' = None
       \<and> (\<forall>k. k \<notin> {''tkinter'', ''tkinter.font'', ''tkinter.ttk'', ''tkinter.messagebox''} \<longrightarrow>
              sys_modules st1 k = sys_modules st k
              \<and> sys_modules (disable_auto_translate st1) k = sys_modules st k)"
proof -
  have m: "m = fake_tkinter" and st1: "st1 = snd (auto_translate_mode st)"
    using assms by (auto simp: auto_translate_mode_def Let_def)
  have sm: "sys_modules st1 =
     (sys_modules st)(''tkinter'' \<mapsto> fake_tkinter, ''tkinter.font'' \<mapsto> fake_font_module,
        ''tkinter.ttk'' \<mapsto> fake_ttk_module, ''tkinter.messagebox'' \<mapsto> fake_messagebox_module)"
    unfolding st1 by (rule auto_translate_mode_sys_modules)
  have om: "original_modules st1 =
     (case sys_modules st ''tkinter'' of
        Some m \<Rightarrow> (original_modules st)(''tkinter'' \<mapsto> m)
      | None \<Rightarrow> original_modules st)"
    unfolding st1 by (rule auto_translate_mode_original)
  show ?thesis
    using m fake_tkinter_classes fake_tkinter_submodules
    by (auto simp: sm om disable_sys_modules)
qed

theorem auto_translate_then_disable_witness:
  "fst (auto_translate_mode demo_interp) = fake_tkinter
   \<and> sys_modules demo_interp ''tkinter'' = Some (Foreign 2)
   \<and> sys_modules (snd (auto_translate_mode demo_interp)) ''tkinter'' = Some fake_tkinter
   \<and> original_modules (snd (auto_translate_mode demo_interp)) ''tkinter'' = Some (Foreign 2)
   \<and> sys_modules (disable_auto_translate (snd (auto_translate_mode demo_interp))) ''tkinter''
        = Some (Foreign 2)
   \<and> sys_modules (disable_auto_translate (snd (auto_translate_mode demo_interp))) ''tkinter.ttk'' = None
   \<and> sys_modules (disable_auto_translate (snd (auto_translate_mode demo_interp))) ''os''
        = Some (Foreign 1)"
proof -
  have run: "auto_translate_mode demo_interp
      = (fst (auto_translate_mode demo_interp), snd (auto_translate_mode demo_interp))"
    by simp
  have pre: "sys_modules demo_interp ''tkinter'' = Some (Foreign 2)"
    "sys_modules demo_interp ''os'' = Some (Foreign 1)"
    by (simp_all add: demo_interp_def)
  show ?thesis
    using pre auto_translate_then_disable [OF run] by simp
qed

subsection \<open>C3: \<^verbatim>\<open>grid\<close> does what \<^verbatim>\<open>pack\<close> does\<close>

text \<open>
  C3: for each of the ten widget classes that define both methods (\<^verbatim>\<open>FakeButton\<close>,
  \<^verbatim>\<open>FakeLabel\<close>, \<^verbatim>\<open>FakeFrame\<close>, \<^verbatim>\<open>FakeCanvas\<close>, \<^verbatim>\<open>FakeScrollbar\<close>, \<^verbatim>\<open>FakeNotebook\<close>, \<^verbatim>\<open>FakeEntry\<close>,
  \<^verbatim>\<open>FakeCheckbutton\<close>, \<^verbatim>\<open>FakeRadiobutton\<close>, \<^verbatim>\<open>FakeText\<close>), for every dictionary of keyword
  arguments, every widget and every store, \<^verbatim>\<open>grid(**kwargs)\<close> leaves the same store as
  \<^verbatim>\<open>pack(**kwargs)\<close>: the same change to the widget, its parent and the Kivy tree.
\<close>

theorem grid_is_pack:
  "FakeButton_grid kw self w = FakeButton_pack kw self w
   \<and> FakeLabel_grid kw self w = FakeLabel_pack kw self w
   \<and> FakeFrame_grid kw self w = FakeFrame_pack kw self w
   \<and> FakeCanvas_grid kw self w = FakeCanvas_pack kw self w
   \<and> FakeScrollbar_grid kw self w = FakeScrollbar_pack kw self w
   \<and> FakeNotebook_grid kw self w = FakeNotebook_pack kw self w
   \<and> FakeEntry_grid kw self w = FakeEntry_pack kw self w
   \<and> FakeCheckbutton_grid kw self w = FakeCheckbutton_pack kw self w
   \<and> FakeRadiobutton_grid kw self w = FakeRadiobutton_pack kw self w
   \<and> FakeText_grid kw self w = FakeText_pack kw self w"
  by (simp add: FakeButton_grid_def FakeLabel_grid_def FakeFrame_grid_def FakeCanvas_grid_def
      FakeScrollbar_grid_def FakeNotebook_grid_def FakeEntry_grid_def FakeCheckbutton_grid_def
      FakeRadiobutton_grid_def FakeText_grid_def)

subsection \<open>C7: \<^verbatim>\<open>translate_imports\<close>\<close>

text \<open>
  C7: for every input string, \<^verbatim>\<open>translate_imports\<close> returns the four Kivy import lines (for
  \<^verbatim>\<open>App\<close>, \<^verbatim>\<open>BoxLayout\<close>, \<^verbatim>\<open>Button\<close>, \<^verbatim>\<open>Label\<close>, joined by newlines) when the input matches one
  of the patterns \<^verbatim>\<open>import tkinter as tk\<close>, \<^verbatim>\<open>from tkinter import\<close>, \<^verbatim>\<open>import tkinter\<close>, and the
  empty string otherwise. A pattern matches when its words occur in the input in this order,
  separated by runs of white space (the \<^verbatim>\<open>\s+\<close> of the source). The function is total: it
  returns for every input.
\<close>

theorem translate_imports_block_or_empty:
  "translate_imports code =
     (if occurs_spaced [''import'', ''tkinter'', ''as'', ''tk''] code
         \<or> occurs_spaced [''from'', ''tkinter'', ''import''] code
         \<or> occurs_spaced [''import'', ''tkinter''] code
      then kivy_import_block else [])"
proof -
  have s1: "rx_search import_as_pattern code \<noteq> None
        \<longleftrightarrow> occurs_spaced [''import'', ''tkinter'', ''as'', ''tk''] code"
    unfolding patterns_spaced by (rule search_spaced)
  have s2: "rx_search from_import_pattern code \<noteq> None
        \<longleftrightarrow> occurs_spaced [''from'', ''tkinter'', ''import''] code"
    unfolding patterns_spaced by (rule search_spaced)
  have s3: "rx_search import_pattern code \<noteq> None
        \<longleftrightarrow> occurs_spaced [''import'', ''tkinter''] code"
    unfolding patterns_spaced by (rule search_spaced)
  show ?thesis
    unfolding translate_imports_def Let_def s1 s2 s3 py_join_block [symmetric]
    by simp
qed

theorem translate_imports_block_or_empty_witness:
  "translate_imports ''import  tkinter'' = kivy_import_block
   \<and> translate_imports ''importtkinter'' = []"
  using translate_imports_block_or_empty [of "''import  tkinter''"] demo_imports_1 demo_imports_2
  by simp

subsection \<open>C8: \<^verbatim>\<open>translate_button\<close> without a \<^verbatim>\<open>Button(\<close> call\<close>

text \<open>
  C8 as stated fails: the pattern of the source is \<^verbatim>\<open>(?:tk\.)?Button\s*\((.*?)\)\<close>, which
  allows white space between the name and the parenthesis. The input \<^verbatim>\<open>Button (x)\<close> does
  not contain \<^verbatim>\<open>Button(\<close>, yet it is translated, to \<^verbatim>\<open>Button()\<close>.
\<close>

theorem translate_button_spaced_counterexample:
  "\<not> contains ''Button('' ''Button (x)''
   \<and> translate_button ''Button (x)'' = ''Button()''
   \<and> translate_button ''Button (x)'' \<noteq> ''# Could not parse tkinter Button call''"
proof -
  have a: "\<not> contains ''Button('' ''Button (x)''" by simp
  have b: "translate_button ''Button (x)'' = ''Button()''" by code_simp
  show ?thesis using a b by simp
qed

text \<open>
  C8, amended: for every input string in which no occurrence of \<^verbatim>\<open>Button\<close> is followed by
  white space (possibly none) and an opening parenthesis, \<^verbatim>\<open>translate_button\<close> returns
  exactly \<^verbatim>\<open># Could not parse tkinter Button call\<close>. The function has no state to change.
\<close>

theorem translate_button_no_call:
  assumes "\<not> has_button_call code"
  shows "translate_button code = ''# Could not parse tkinter Button call''"
proof -
  have "rx_search button_pattern code = None"
    using assms button_pattern_found [of code] by blast
  then show ?thesis by (simp add: translate_button_def)
qed

theorem translate_button_no_call_witness:
  "\<not> has_button_call ''tk.Label(root, text=1)''
   \<and> translate_button ''tk.Label(root, text=1)'' = ''# Could not parse tkinter Button call''"
  using demo_no_button translate_button_no_call [OF demo_no_button] by simp

end
